theory Spec2Isabelle
  imports Complex_Main
begin

section \<open>Exceptions\<close>

text \<open>
  Every exception the two modules raise (or let through from a library call) is a value.
  \<open>IOError\<close> carries errno, message and file name, as the three-argument constructor
  of the source does; \<open>LibraryError\<close> stands for whatever a wrapped library call raises.
\<close>

datatype error =
    ValueError string
  | TypeError string
  | IndexError
  | KeyError
  | AttributeError string
  | IOError nat string string
  | LibraryError string

section \<open>learner/utils.py: Densifier\<close>

text \<open>
  A sparse matrix is its shape and its stored entries; \<open>todense\<close> (scipy's method, not
  part of the repository) fills the absent entries with zero.  A \<open>Densifier\<close> has no
  attributes, so an instance is its identity only.  The three methods return different
  kinds of object, hence the result type \<open>stage_result\<close>.
\<close>

record sparse_matrix =
  nrows :: nat
  ncols :: nat
  entries :: "nat \<times> nat \<Rightarrow> real option"

definition todense :: "sparse_matrix \<Rightarrow> real list list" where
  "todense X =
     map (\<lambda>i. map (\<lambda>j. case entries X (i, j) of None \<Rightarrow> 0 | Some v \<Rightarrow> v) [0..<ncols X])
         [0..<nrows X]"

datatype densifier = Densifier nat

datatype stage_result = Self densifier | Dense "real list list"

definition densifier_fit :: "densifier \<Rightarrow> sparse_matrix \<Rightarrow> 'y option \<Rightarrow> stage_result" where
  "densifier_fit self X y = Self self"

definition fit_transform :: "densifier \<Rightarrow> sparse_matrix \<Rightarrow> 'y option \<Rightarrow> stage_result" where
  "fit_transform self X y = Self self"

definition transform :: "densifier \<Rightarrow> sparse_matrix \<Rightarrow> stage_result" where
  "transform self X = Dense (todense X)"

section \<open>learner/utils.py: FilteredLeaveOneGroupOut\<close>

text \<open>
  The instance holds the keep-set, the example IDs by row index, the \<open>_warned\<close> flag and
  the logger, modelled by the list of warnings it has received.
\<close>

record 'a filtered_logo =
  keep :: "'a set"
  example_ids :: "'a list"
  warned :: bool
  logger :: "string list"

definition FilteredLeaveOneGroupOut :: "'a set \<Rightarrow> 'a list \<Rightarrow> 'a filtered_logo" where
  "FilteredLeaveOneGroupOut kp ids =
     \<lparr>keep = kp, example_ids = ids, warned = False, logger = []\<rparr>"

text \<open>
  The comprehension \<open>[i for i in index if self.example_ids[i] in self.keep]\<close>.
  Reading \<open>example_ids[i]\<close> past the end of the list raises \<open>IndexError\<close>.
\<close>

fun filter_index :: "'a set \<Rightarrow> 'a list \<Rightarrow> nat list \<Rightarrow> error + nat list" where
  "filter_index kp ids [] = Inr []"
| "filter_index kp ids (i # rest) =
     (if i < length ids then
        (case filter_index kp ids rest of
           Inl e \<Rightarrow> Inl e
         | Inr r \<Rightarrow> Inr (if ids ! i \<in> kp then i # r else r))
      else Inl IndexError)"

definition skip_warning :: string where
  "skip_warning = ''Feature set contains IDs that are not in folds dictionary. Skipping those IDs.''"

text \<open>
  The body of the \<open>if not self._warned and (...)\<close> statement: one warning, once.
\<close>

definition warn_if_filtered :: "'a filtered_logo \<Rightarrow> nat \<Rightarrow> nat \<Rightarrow> nat list \<Rightarrow> nat list
    \<Rightarrow> 'a filtered_logo" where
  "warn_if_filtered self train_len test_len train_index test_index =
     (if \<not> warned self \<and> (train_len \<noteq> length train_index \<or> test_len \<noteq> length test_index)
      then self\<lparr>warned := True, logger := logger self @ [skip_warning]\<rparr>
      else self)"

text \<open>
  The generator, run to its end over the pairs that the parent class's \<open>split\<close> yields:
  the pairs yielded, the exception that stopped it (if any) and the instance afterwards.
\<close>

fun split_folds :: "'a filtered_logo \<Rightarrow> (nat list \<times> nat list) list
    \<Rightarrow> (nat list \<times> nat list) list \<times> error option \<times> 'a filtered_logo" where
  "split_folds self [] = ([], None, self)"
| "split_folds self ((train_index, test_index) # rest) =
     (case filter_index (keep self) (example_ids self) train_index of
        Inl e \<Rightarrow> ([], Some e, self)
      | Inr train_index' \<Rightarrow>
          (case filter_index (keep self) (example_ids self) test_index of
             Inl e \<Rightarrow> ([], Some e, self)
           | Inr test_index' \<Rightarrow>
               (case split_folds (warn_if_filtered self (length train_index) (length test_index)
                                    train_index' test_index') rest of
                  (ys, e, self') \<Rightarrow> ((train_index', test_index') # ys, e, self'))))"

text \<open>
  \<open>split\<close> itself: \<open>super_split\<close> is \<open>LeaveOneGroupOut.split\<close> of the wrapped library,
  taken as a parameter.
\<close>

definition split :: "('x \<Rightarrow> 'y \<Rightarrow> 'g \<Rightarrow> (nat list \<times> nat list) list) \<Rightarrow> 'a filtered_logo
    \<Rightarrow> 'x \<Rightarrow> 'y \<Rightarrow> 'g \<Rightarrow> (nat list \<times> nat list) list \<times> error option \<times> 'a filtered_logo" where
  "split super_split self X y groups = split_folds self (super_split X y groups)"

section \<open>learner/utils.py: contiguous_ints_or_floats\<close>

text \<open>
  A numpy array is its element type together with its elements: an integer array of one
  of the fixed-width integer types, a floating array of one of the floating types, a
  string array, or an array of dtype \<open>object\<close>, whose elements are Python objects
  (integers, floats or strings); arrays of booleans, of complex numbers and of dates are
  not modelled.  An array-like argument (a list) reaches the numpy
  functions as the array numpy makes of it: \<open>[1, 2, 3]\<close> is \<open>IntArr Int64 [1, 2, 3]\<close>,
  \<open>[4.0, 5.0, 6.0]\<close> is \<open>FloatArr Float64 [4, 5, 6]\<close>, \<open>["a", "b"]\<close> is
  \<open>StrArr [''a'', ''b'']\<close> and \<open>[]\<close> is \<open>FloatArr Float64 []\<close>.

  The elements of an integer array are integers in the range of its type
  (\<open>well_formed\<close>), and the arithmetic of numpy on them wraps around (\<open>wrap\<close>).
  Floats are modelled by the real numbers they denote (infinities and NaN are left out).
  The two tests of the function are exact on them: the remainder of a float modulo 1 is
  zero exactly for the integral floats, and the rounded difference of two integral floats
  is 1 exactly when their difference is 1.
\<close>

datatype pyval = PInt int | PFloat real | PStr string

datatype int_dtype = Int8 | Int16 | Int32 | Int64 | UInt8 | UInt16 | UInt32 | UInt64

datatype float_dtype = Float16 | Float32 | Float64 | LongDouble

datatype ndarray =
    IntArr int_dtype "int list"
  | FloatArr float_dtype "real list"
  | StrArr "string list"
  | ObjArr "pyval list"

fun len :: "ndarray \<Rightarrow> nat" where
  "len (IntArr t xs) = length xs"
| "len (FloatArr t xs) = length xs"
| "len (StrArr xs) = length xs"
| "len (ObjArr xs) = length xs"

fun bits :: "int_dtype \<Rightarrow> nat" where
  "bits Int8 = 8"
| "bits Int16 = 16"
| "bits Int32 = 32"
| "bits Int64 = 64"
| "bits UInt8 = 8"
| "bits UInt16 = 16"
| "bits UInt32 = 32"
| "bits UInt64 = 64"

fun lowest :: "int_dtype \<Rightarrow> int" where
  "lowest Int8 = - (2 ^ 7)"
| "lowest Int16 = - (2 ^ 15)"
| "lowest Int32 = - (2 ^ 31)"
| "lowest Int64 = - (2 ^ 63)"
| "lowest t = 0"

definition highest :: "int_dtype \<Rightarrow> int" where
  "highest t = lowest t + 2 ^ bits t - 1"

text \<open>The value that the integer type \<open>t\<close> holds after an operation with exact result \<open>v\<close>.\<close>

definition wrap :: "int_dtype \<Rightarrow> int \<Rightarrow> int" where
  "wrap t v = (v - lowest t) mod 2 ^ bits t + lowest t"

fun well_formed :: "ndarray \<Rightarrow> bool" where
  "well_formed (IntArr t xs) = list_all (\<lambda>x. lowest t \<le> x \<and> x \<le> highest t) xs"
| "well_formed a = True"

text \<open>
  On an array of dtype \<open>object\<close> numpy applies Python's own operators to the elements:
  \<open>x % 1\<close>, which on a string is string formatting, and \<open>y - x\<close>.  They belong to the
  language and are parameters; each returns its result or the exception it raises.
\<close>

record python_operators =
  remainder_by_one :: "pyval \<Rightarrow> error + pyval"
  difference :: "pyval \<Rightarrow> pyval \<Rightarrow> error + pyval"

fun try_map :: "('a \<Rightarrow> error + 'b) \<Rightarrow> 'a list \<Rightarrow> error + 'b list" where
  "try_map f [] = Inr []"
| "try_map f (x # xs) =
     (case f x of
        Inl e \<Rightarrow> Inl e
      | Inr y \<Rightarrow> (case try_map f xs of Inl e \<Rightarrow> Inl e | Inr ys \<Rightarrow> Inr (y # ys)))"

text \<open>
  \<open>np.mod(numbers, 1)\<close>: the remainder has the sign of the divisor.  A string array has
  no remainder: \<open>TypeError\<close>.
\<close>

definition mod1 :: "real \<Rightarrow> real" where
  "mod1 x = x - of_int \<lfloor>x\<rfloor>"

fun np_mod1 :: "python_operators \<Rightarrow> ndarray \<Rightarrow> error + ndarray" where
  "np_mod1 py (IntArr t xs) = Inr (IntArr t (map (\<lambda>i. i mod 1) xs))"
| "np_mod1 py (FloatArr t xs) = Inr (FloatArr t (map mod1 xs))"
| "np_mod1 py (StrArr xs) = Inl (TypeError ''ufunc remainder did not contain a loop'')"
| "np_mod1 py (ObjArr xs) =
     (case try_map (remainder_by_one py) xs of
        Inl e \<Rightarrow> Inl e
      | Inr ys \<Rightarrow> Inr (ObjArr ys))"

text \<open>
  \<open>np.diff(numbers)\<close>: each element minus the one before it, in the arithmetic of the
  element type.
\<close>

fun diff :: "('a::minus) list \<Rightarrow> 'a list" where
  "diff (x # y # rest) = (y - x) # diff (y # rest)"
| "diff xs = []"

fun object_diff :: "python_operators \<Rightarrow> pyval list \<Rightarrow> error + pyval list" where
  "object_diff py (x # y # rest) =
     (case difference py y x of
        Inl e \<Rightarrow> Inl e
      | Inr d \<Rightarrow> (case object_diff py (y # rest) of Inl e \<Rightarrow> Inl e | Inr ds \<Rightarrow> Inr (d # ds)))"
| "object_diff py xs = Inr []"

fun np_diff :: "python_operators \<Rightarrow> ndarray \<Rightarrow> error + ndarray" where
  "np_diff py (IntArr t xs) = Inr (IntArr t (map (wrap t) (diff xs)))"
| "np_diff py (FloatArr t xs) = Inr (FloatArr t (diff xs))"
| "np_diff py (StrArr xs) = Inl (TypeError ''ufunc subtract did not contain a loop'')"
| "np_diff py (ObjArr xs) =
     (case object_diff py xs of
        Inl e \<Rightarrow> Inl e
      | Inr ds \<Rightarrow> Inr (ObjArr ds))"

text \<open>
  \<open>array == n\<close> for an integer \<open>n\<close>, element by element; a Python string is never equal
  to a number.
\<close>

fun equals_number :: "pyval \<Rightarrow> int \<Rightarrow> bool" where
  "equals_number (PInt i) n = (i = n)"
| "equals_number (PFloat x) n = (x = of_int n)"
| "equals_number (PStr s) n = False"

fun equals :: "ndarray \<Rightarrow> int \<Rightarrow> bool list" where
  "equals (IntArr t xs) n = map (\<lambda>x. x = n) xs"
| "equals (FloatArr t xs) n = map (\<lambda>x. x = of_int n) xs"
| "equals (StrArr xs) n = map (\<lambda>x. False) xs"
| "equals (ObjArr xs) n = map (\<lambda>x. equals_number x n) xs"

definition np_all :: "bool list \<Rightarrow> bool" where
  "np_all bs = list_all (\<lambda>b. b) bs"

text \<open>
  The two \<open>except\<close> clauses: a \<open>TypeError\<close> is raised again with the message of the
  function, any other exception of the two numpy calls passes through.  (The
  \<open>AssertionError\<close> can only come from the assertion and is the \<open>ValueError\<close> below.)
\<close>

fun handled :: "error \<Rightarrow> error" where
  "handled (TypeError m) = TypeError ''Input should only contain numbers.''"
| "handled e = e"

definition contiguous_ints_or_floats :: "python_operators \<Rightarrow> ndarray \<Rightarrow> error + bool" where
  "contiguous_ints_or_floats py numbers =
     (if \<not> len numbers > 0 then Inl (ValueError ''Input cannot be empty.'')
      else
        (case np_mod1 py numbers of
           Inl e \<Rightarrow> Inl (handled e)
         | Inr remainders \<Rightarrow>
             (let ints_or_int_like_floats = np_all (equals remainders 0)
              in case np_diff py numbers of
                   Inl e \<Rightarrow> Inl (handled e)
                 | Inr differences \<Rightarrow>
                     (let contiguous = np_all (equals differences 1)
                      in Inr (ints_or_int_like_floats \<and> contiguous)))))"

text \<open>
  The contiguity of the specification, in its words: every element's fractional part is
  zero and every consecutive difference equals exactly 1.  It is said of the numbers in
  a numeric array.
\<close>

definition fractional_parts_zero_and_steps_one :: "real list \<Rightarrow> bool" where
  "fractional_parts_zero_and_steps_one xs \<longleftrightarrow>
     (\<forall>x\<in>set xs. frac x = 0) \<and> (\<forall>i. Suc i < length xs \<longrightarrow> xs ! Suc i - xs ! i = 1)"

fun numbers_of :: "ndarray \<Rightarrow> real list option" where
  "numbers_of (IntArr t xs) = Some (map of_int xs)"
| "numbers_of (FloatArr t xs) = Some xs"
| "numbers_of a = None"

text \<open>
  Python's operators on the objects that the examples below use: integers, and the
  string \<open>%d\<close>, which \<open>% 1\<close> formats to \<open>1\<close>.
\<close>

definition sample_python :: python_operators where
  "sample_python =
     \<lparr>remainder_by_one =
        (\<lambda>x. case x of
               PInt i \<Rightarrow> Inr (PInt (i mod 1))
             | PFloat r \<Rightarrow> Inl (LibraryError ''not in the sample'')
             | PStr s \<Rightarrow> (if s = ''%d'' then Inr (PStr ''1'')
                          else Inl (LibraryError ''not in the sample''))),
      difference =
        (\<lambda>y x. case (y, x) of
                 (PInt j, PInt i) \<Rightarrow> Inr (PInt (j - i))
               | _ \<Rightarrow> Inl (LibraryError ''not in the sample''))\<rparr>"

section \<open>learner/utils.py: the acceptable metrics\<close>

text \<open>
  The five sets of metric names come from \<open>skll.utils.constants\<close>, which is not among
  the sources: they are a parameter of the two functions.
\<close>

record metric_constants =
  CLASSIFICATION_ONLY_METRICS :: "string set"
  CORRELATION_METRICS :: "string set"
  REGRESSION_ONLY_METRICS :: "string set"
  UNWEIGHTED_KAPPA_METRICS :: "string set"
  WEIGHTED_KAPPA_METRICS :: "string set"

definition get_acceptable_regression_metrics :: "metric_constants \<Rightarrow> string set" where
  "get_acceptable_regression_metrics c =
     REGRESSION_ONLY_METRICS c \<union> UNWEIGHTED_KAPPA_METRICS c
       \<union> WEIGHTED_KAPPA_METRICS c \<union> CORRELATION_METRICS c"

text \<open>
  \<open>label_array.dtype.type\<close> and the two \<open>issubclass\<close> tests on it.  The first accepts
  \<open>np.object_\<close> and \<open>str\<close>.  The second names \<open>int\<close>, \<open>np.int32\<close>, \<open>np.int64\<close>,
  \<open>float\<close>, \<open>np.float32\<close> and \<open>np.float64\<close>: the other integer and floating types are
  subclasses of none of them.
\<close>

datatype scalar_type = IntType int_dtype | FloatType float_dtype | StrType | ObjectType

fun dtype_type :: "ndarray \<Rightarrow> scalar_type" where
  "dtype_type (IntArr t xs) = IntType t"
| "dtype_type (FloatArr t xs) = FloatType t"
| "dtype_type (StrArr xs) = StrType"
| "dtype_type (ObjArr xs) = ObjectType"

definition is_object_or_str :: "scalar_type \<Rightarrow> bool" where
  "is_object_or_str label_type \<longleftrightarrow> label_type = ObjectType \<or> label_type = StrType"

definition is_named_int_or_float :: "scalar_type \<Rightarrow> bool" where
  "is_named_int_or_float label_type \<longleftrightarrow>
     label_type = IntType Int32 \<or> label_type = IntType Int64
     \<or> label_type = FloatType Float32 \<or> label_type = FloatType Float64"

definition get_acceptable_classification_metrics ::
    "python_operators \<Rightarrow> metric_constants \<Rightarrow> ndarray \<Rightarrow> error + string set" where
  "get_acceptable_classification_metrics py c label_array =
     (let acceptable_metrics = CLASSIFICATION_ONLY_METRICS c \<union> UNWEIGHTED_KAPPA_METRICS c;
          label_type = dtype_type label_array
      in if is_object_or_str label_type then Inr acceptable_metrics
         else if is_named_int_or_float label_type then
           (let acceptable_metrics = acceptable_metrics \<union> CORRELATION_METRICS c
            in case contiguous_ints_or_floats py label_array of
                 Inl e \<Rightarrow> Inl e
               | Inr contiguous \<Rightarrow>
                   Inr (if contiguous then acceptable_metrics \<union> WEIGHTED_KAPPA_METRICS c
                        else acceptable_metrics))
         else Inr acceptable_metrics)"

text \<open>
  A label array is sorted and holds each label once: its numbers, when it is a numeric
  array, are strictly ascending.
\<close>

definition sorted_unique :: "ndarray \<Rightarrow> bool" where
  "sorted_unique a = (case numbers_of a of None \<Rightarrow> True | Some xs \<Rightarrow> sorted_wrt (\<lambda>x y. x < y) xs)"

text \<open>
  An instance of the constants, with some of the names the toolkit uses, to run the
  functions on.
\<close>

definition sample_constants :: metric_constants where
  "sample_constants =
     \<lparr>CLASSIFICATION_ONLY_METRICS = {''accuracy'', ''f1''},
      CORRELATION_METRICS = {''kendall_tau'', ''pearson'', ''spearman''},
      REGRESSION_ONLY_METRICS = {''r2'', ''neg_mean_squared_error''},
      UNWEIGHTED_KAPPA_METRICS = {''unweighted_kappa'', ''uwk_off_by_one''},
      WEIGHTED_KAPPA_METRICS = {''linear_weighted_kappa'', ''quadratic_weighted_kappa''}\<rparr>"

section \<open>learner/utils.py: the arithmetic of predictions\<close>

text \<open>
  A value of a float array is a finite number, an infinity or NaN.  numpy does not raise
  on a division by zero: it warns and stores an infinity, or NaN for \<open>0 / 0\<close>.  The
  arithmetic on finite values is that of the real numbers (rounding is not modelled);
  the zero of a division is the positive zero, which is what a standard deviation is
  when it is zero.
\<close>

datatype npfloat = Fin real | PInf | NInf | NaN


fun np_neg :: "npfloat \<Rightarrow> npfloat" where
  "np_neg (Fin x) = Fin (- x)"
| "np_neg PInf = NInf"
| "np_neg NInf = PInf"
| "np_neg NaN = NaN"

fun np_add :: "npfloat \<Rightarrow> npfloat \<Rightarrow> npfloat" where
  "np_add (Fin x) (Fin y) = Fin (x + y)"
| "np_add NaN v = NaN"
| "np_add v NaN = NaN"
| "np_add PInf NInf = NaN"
| "np_add NInf PInf = NaN"
| "np_add PInf v = PInf"
| "np_add v PInf = PInf"
| "np_add NInf v = NInf"
| "np_add v NInf = NInf"

definition np_sub :: "npfloat \<Rightarrow> npfloat \<Rightarrow> npfloat" where
  "np_sub u v = np_add u (np_neg v)"

text \<open>The sign of a value, for products and quotients with an infinity.\<close>

fun positive :: "npfloat \<Rightarrow> bool" where
  "positive (Fin x) = (0 \<le> x)"
| "positive PInf = True"
| "positive v = False"

definition signed_inf :: "bool \<Rightarrow> npfloat" where
  "signed_inf pos = (if pos then PInf else NInf)"

fun np_mul :: "npfloat \<Rightarrow> npfloat \<Rightarrow> npfloat" where
  "np_mul (Fin x) (Fin y) = Fin (x * y)"
| "np_mul NaN v = NaN"
| "np_mul v NaN = NaN"
| "np_mul (Fin x) v = (if x = 0 then NaN else signed_inf (positive (Fin x) = positive v))"
| "np_mul v (Fin y) = (if y = 0 then NaN else signed_inf (positive v = positive (Fin y)))"
| "np_mul u v = signed_inf (positive u = positive v)"

fun np_div :: "npfloat \<Rightarrow> npfloat \<Rightarrow> npfloat" where
  "np_div (Fin x) (Fin y) =
     (if y = 0 then (if x = 0 then NaN else signed_inf (0 < x)) else Fin (x / y))"
| "np_div NaN v = NaN"
| "np_div v NaN = NaN"
| "np_div (Fin x) v = Fin 0"
| "np_div u (Fin y) = signed_inf (positive u = positive (Fin y))"
| "np_div u v = NaN"

text \<open>
  The comparison \<open><\<close>: false whenever an operand is NaN.  Python's two-argument \<open>min\<close>
  and \<open>max\<close> keep their first argument unless the second is smaller (greater).
\<close>

fun np_less :: "npfloat \<Rightarrow> npfloat \<Rightarrow> bool" where
  "np_less (Fin x) (Fin y) = (x < y)"
| "np_less NaN v = False"
| "np_less v NaN = False"
| "np_less PInf v = False"
| "np_less v PInf = True"
| "np_less v NInf = False"
| "np_less NInf v = True"

definition py_min2 :: "npfloat \<Rightarrow> npfloat \<Rightarrow> npfloat" where
  "py_min2 a b = (if np_less b a then b else a)"

definition py_max2 :: "npfloat \<Rightarrow> npfloat \<Rightarrow> npfloat" where
  "py_max2 a b = (if np_less a b then b else a)"

text \<open>
  The built-in \<open>min\<close> and \<open>max\<close> of a sequence of labels: \<open>ValueError\<close> when it is empty.
\<close>

fun py_min :: "real list \<Rightarrow> error + real" where
  "py_min [] = Inl (ValueError ''min() arg is an empty sequence'')"
| "py_min (x # xs) = Inr (foldl (\<lambda>m v. if v < m then v else m) x xs)"

fun py_max :: "real list \<Rightarrow> error + real" where
  "py_max [] = Inl (ValueError ''max() arg is an empty sequence'')"
| "py_max (x # xs) = Inr (foldl (\<lambda>m v. if m < v then v else m) x xs)"

text \<open>
  \<open>np.mean\<close> and \<open>np.std\<close> are numpy's and are parameters: each maps an array of
  finite numbers to a float, which may be an infinity or NaN.
\<close>

record numpy_statistics =
  np_mean :: "real list \<Rightarrow> npfloat"
  np_std :: "real list \<Rightarrow> npfloat"

text \<open>
  The values of the two functions on the arrays that the examples below use, where the
  floating-point results are exact: the mean and the standard deviation of \<open>[3, 3]\<close> are
  3 and 0, of \<open>[7, 7, 7]\<close> 7 and 0, of \<open>[0, 10]\<close> 5 and 5.
\<close>

definition sample_statistics :: numpy_statistics where
  "sample_statistics =
     \<lparr>np_mean = (\<lambda>xs. if xs = [3, 3] then Fin 3
                     else if xs = [7, 7, 7] then Fin 7
                     else if xs = [0, 10] then Fin 5
                     else NaN),
      np_std = (\<lambda>xs. if xs = [3, 3] then Fin 0
                    else if xs = [7, 7, 7] then Fin 0
                    else if xs = [0, 10] then Fin 5
                    else NaN)\<rparr>"

section \<open>learner/utils.py: rescaled\<close>

text \<open>
  A class, as far as the decorator looks at it: the class attribute \<open>rescale\<close> (absent on
  a class that is not decorated), \<open>_estimator_type\<close>, \<open>_get_param_names\<close> (of which only
  the presence matters) and the methods \<open>__init__\<close>, \<open>fit\<close> and \<open>predict\<close>.  Every class
  has an \<open>__init__\<close>; reading any of the others on a class that lacks it raises
  \<open>AttributeError\<close>.  The type \<open>'k\<close> is that of the constructor's arguments, \<open>'m\<close> that
  of the attributes of an instance and \<open>'x\<close> that of the feature arrays.  A method that
  raises returns the exception.
\<close>

record ('k, 'm, 'x) estimator_class =
  rescale_attr :: "bool option"
  estimator_type_attr :: "string option"
  get_param_names_attr :: bool
  init_attr :: "'k \<Rightarrow> error + 'm"
  fit_attr :: "('m \<Rightarrow> 'x \<Rightarrow> real list option \<Rightarrow> error + 'm) option"
  predict_attr :: "('m \<Rightarrow> 'x \<Rightarrow> error + real list) option"

text \<open>
  An instance of the decorated class: the two flags, the six statistics (\<open>None\<close> until a
  fit records them) and the attributes of the undecorated estimator, \<open>estimator\<close>, which
  are all that the original methods read and write.
\<close>

record 'm rescaled_instance =
  constrain :: bool
  rescale :: bool
  y_min :: "real option"
  y_max :: "real option"
  yhat_mean :: "npfloat option"
  yhat_sd :: "npfloat option"
  y_mean :: "npfloat option"
  y_sd :: "npfloat option"
  estimator :: 'm

definition init :: "('k \<Rightarrow> error + 'm) \<Rightarrow> bool \<times> bool \<times> 'k \<Rightarrow> error + 'm rescaled_instance" where
  "init orig_init args =
     (case args of (constrain_flag, rescale_flag, kwargs) \<Rightarrow>
        (case orig_init kwargs of
           Inl e \<Rightarrow> Inl e
         | Inr m \<Rightarrow>
             Inr \<lparr>constrain = constrain_flag, rescale = rescale_flag,
                  y_min = None, y_max = None, yhat_mean = None, yhat_sd = None,
                  y_mean = None, y_sd = None, estimator = m\<rparr>))"

text \<open>
  The two halves of the new \<open>fit\<close> after the original one has run.  Without labels
  (\<open>y=None\<close>) \<open>min\<close> and \<open>np.mean\<close> raise \<open>TypeError\<close>.
\<close>

definition record_min_max :: "'m rescaled_instance \<Rightarrow> real list option
    \<Rightarrow> error + 'm rescaled_instance" where
  "record_min_max self y =
     (case y of
        None \<Rightarrow> Inl (TypeError ''NoneType object is not iterable'')
      | Some ys \<Rightarrow>
          (case py_min ys of
             Inl e \<Rightarrow> Inl e
           | Inr lo \<Rightarrow>
               (case py_max ys of
                  Inl e \<Rightarrow> Inl e
                | Inr hi \<Rightarrow> Inr (self\<lparr>y_min := Some lo, y_max := Some hi\<rparr>))))"

definition record_mean_sd :: "numpy_statistics \<Rightarrow> ('m \<Rightarrow> 'x \<Rightarrow> error + real list)
    \<Rightarrow> 'm rescaled_instance \<Rightarrow> 'x \<Rightarrow> real list option \<Rightarrow> error + 'm rescaled_instance" where
  "record_mean_sd np orig_predict self X y =
     (case orig_predict (estimator self) X of
        Inl e \<Rightarrow> Inl e
      | Inr y_hat \<Rightarrow>
          (case y of
             None \<Rightarrow> Inl (TypeError ''unsupported operand type(s)'')
           | Some ys \<Rightarrow>
               Inr (self\<lparr>yhat_mean := Some (np_mean np y_hat), yhat_sd := Some (np_std np y_hat),
                         y_mean := Some (np_mean np ys), y_sd := Some (np_std np ys)\<rparr>)))"

definition fit :: "numpy_statistics \<Rightarrow> ('m \<Rightarrow> 'x \<Rightarrow> real list option \<Rightarrow> error + 'm)
    \<Rightarrow> ('m \<Rightarrow> 'x \<Rightarrow> error + real list)
    \<Rightarrow> 'm rescaled_instance \<Rightarrow> 'x \<Rightarrow> real list option \<Rightarrow> error + 'm rescaled_instance" where
  "fit np orig_fit orig_predict self X y =
     (case orig_fit (estimator self) X y of
        Inl e \<Rightarrow> Inl e
      | Inr m \<Rightarrow>
          (case (if constrain self then record_min_max (self\<lparr>estimator := m\<rparr>) y
                 else Inr (self\<lparr>estimator := m\<rparr>)) of
             Inl e \<Rightarrow> Inl e
           | Inr self' \<Rightarrow>
               (if rescale self' then record_mean_sd np orig_predict self' X y else Inr self')))"

text \<open>
  The two steps of the new \<open>predict\<close>.  An attribute that is still \<open>None\<close> raises
  \<open>TypeError\<close>: in the array arithmetic at once, in \<open>min\<close> and \<open>max\<close> at the first
  prediction of the comprehension.
\<close>

definition rescale_predictions :: "'m rescaled_instance \<Rightarrow> npfloat list \<Rightarrow> error + npfloat list" where
  "rescale_predictions self res =
     (case (yhat_mean self, yhat_sd self, y_sd self, y_mean self) of
        (Some yhat_mean', Some yhat_sd', Some y_sd', Some y_mean') \<Rightarrow>
          Inr (map (\<lambda>r. np_add (np_mul (np_div (np_sub r yhat_mean') yhat_sd') y_sd') y_mean') res)
      | _ \<Rightarrow> Inl (TypeError ''unsupported operand type(s)''))"

definition constrain_predictions :: "'m rescaled_instance \<Rightarrow> npfloat list \<Rightarrow> error + npfloat list" where
  "constrain_predictions self res =
     (if res = [] then Inr []
      else
        (case (y_min self, y_max self) of
           (Some lo, Some hi) \<Rightarrow> Inr (map (\<lambda>pred. py_max2 (Fin lo) (py_min2 (Fin hi) pred)) res)
         | _ \<Rightarrow> Inl (TypeError ''not supported between instances of float and NoneType'')))"

definition predict :: "('m \<Rightarrow> 'x \<Rightarrow> error + real list) \<Rightarrow> 'm rescaled_instance \<Rightarrow> 'x
    \<Rightarrow> error + npfloat list" where
  "predict orig_predict self X =
     (case orig_predict (estimator self) X of
        Inl e \<Rightarrow> Inl e
      | Inr raw \<Rightarrow>
          (case (if rescale self then rescale_predictions self (map Fin raw)
                 else Inr (map Fin raw)) of
             Inl e \<Rightarrow> Inl e
           | Inr res \<Rightarrow> (if constrain self then constrain_predictions self res else Inr res)))"

text \<open>
  The class that the decorator makes: \<open>rescale\<close> is set, and \<open>__init__\<close>, \<open>fit\<close> and
  \<open>predict\<close> are the new methods, which close over the original ones.  (What the new
  \<open>_get_param_names\<close> computes is not modelled.)
\<close>

record ('k, 'm, 'x) rescaled_class =
  rescale_set :: bool
  estimator_type :: string
  init_method :: "bool \<times> bool \<times> 'k \<Rightarrow> error + 'm rescaled_instance"
  fit_method :: "'m rescaled_instance \<Rightarrow> 'x \<Rightarrow> real list option \<Rightarrow> error + 'm rescaled_instance"
  predict_method :: "'m rescaled_instance \<Rightarrow> 'x \<Rightarrow> error + npfloat list"

definition override :: "numpy_statistics \<Rightarrow> string \<Rightarrow> ('k \<Rightarrow> error + 'm)
    \<Rightarrow> ('m \<Rightarrow> 'x \<Rightarrow> real list option \<Rightarrow> error + 'm) \<Rightarrow> ('m \<Rightarrow> 'x \<Rightarrow> error + real list)
    \<Rightarrow> ('k, 'm, 'x) rescaled_class" where
  "override np type orig_init orig_fit orig_predict =
     \<lparr>rescale_set = True,
      estimator_type = type,
      init_method = init orig_init,
      fit_method = fit np orig_fit orig_predict,
      predict_method = predict orig_predict\<rparr>"

text \<open>
  The decorator, in the order of the source: it returns the class it was given when
  that class has the attribute \<open>rescale\<close>; it reads \<open>__init__\<close>, \<open>fit\<close> and \<open>predict\<close>; it
  raises on a classifier; it reads \<open>_get_param_names\<close> (to wrap it); and it returns the
  class with the methods overridden.
\<close>

datatype ('k, 'm, 'x) decorated =
    Unchanged "('k, 'm, 'x) estimator_class"
  | Patched "('k, 'm, 'x) rescaled_class"

definition rescaled :: "numpy_statistics \<Rightarrow> ('k, 'm, 'x) estimator_class
    \<Rightarrow> error + ('k, 'm, 'x) decorated" where
  "rescaled np cls =
     (if rescale_attr cls \<noteq> None then Inr (Unchanged cls)
      else
        (let orig_init = init_attr cls
         in case fit_attr cls of
              None \<Rightarrow> Inl (AttributeError ''fit'')
            | Some orig_fit \<Rightarrow>
                (case predict_attr cls of
                   None \<Rightarrow> Inl (AttributeError ''predict'')
                 | Some orig_predict \<Rightarrow>
                     (case estimator_type_attr cls of
                        None \<Rightarrow> Inl (AttributeError ''_estimator_type'')
                      | Some type \<Rightarrow>
                          (if type = ''classifier''
                           then Inl (ValueError ''Classifiers cannot be rescaled. Only regressors can.'')
                           else if \<not> get_param_names_attr cls
                           then Inl (AttributeError ''_get_param_names'')
                           else Inr (Patched (override np type orig_init orig_fit orig_predict)))))))"

text \<open>
  Two classes to run the decorator on: a regressor that learns nothing and predicts, for
  each row, the row's one feature, and a classifier with the same methods.
\<close>

definition feature_regressor :: "(unit, unit, real list) estimator_class" where
  "feature_regressor =
     \<lparr>rescale_attr = None, estimator_type_attr = Some ''regressor'',
      get_param_names_attr = True,
      init_attr = (\<lambda>kwargs. Inr ()),
      fit_attr = Some (\<lambda>self X y. Inr self),
      predict_attr = Some (\<lambda>self X. Inr X)\<rparr>"

definition feature_classifier :: "(unit, unit, real list) estimator_class" where
  "feature_classifier = feature_regressor\<lparr>estimator_type_attr := Some ''classifier''\<rparr>"

text \<open>The class that decorating the regressor gives.\<close>

definition rescaled_feature_regressor :: "(unit, unit, real list) rescaled_class" where
  "rescaled_feature_regressor =
     override sample_statistics ''regressor'' (\<lambda>kwargs. Inr ()) (\<lambda>self X y. Inr self)
       (\<lambda>self X. Inr X)"

section \<open>config/utils.py: fix_json and the metric validator\<close>

text \<open>
  \<open>str.replace(old, new)\<close> for a non-empty \<open>old\<close>: the occurrences are replaced from left
  to right and do not overlap.  The counter is the number of characters of a replaced
  occurrence still to be skipped.
\<close>

fun replace_from :: "string \<Rightarrow> string \<Rightarrow> nat \<Rightarrow> string \<Rightarrow> string" where
  "replace_from old new n [] = []"
| "replace_from old new (Suc n) (c # cs) = replace_from old new n cs"
| "replace_from old new 0 (c # cs) =
     (if take (length old) (c # cs) = old
      then new @ replace_from old new (length old - 1) cs
      else c # replace_from old new 0 cs)"

definition replace :: "string \<Rightarrow> string \<Rightarrow> string \<Rightarrow> string" where
  "replace old new s = replace_from old new 0 s"

definition fix_json :: "string \<Rightarrow> string" where
  "fix_json json_string =
     (let json_string = replace ''True'' ''true'' json_string;
          json_string = replace ''False'' ''false'' json_string;
          json_string = replace [CHR 0x27] [CHR 0x22] json_string
      in json_string)"

text \<open>
  What \<open>yaml.safe_load\<close> returns: a string, another scalar (null, a boolean, a number;
  kept as the name of its Python type and the text Python prints for it), a list or a
  mapping.  The parser itself belongs to the YAML library and is a parameter of the
  validator, as is \<open>SCORERS\<close>, the registry of the wrapped library, of which only the set
  of keys matters.
\<close>

datatype yaml =
    YStr string
  | YScalar string string
  | YList "yaml list"
  | YMap "(yaml \<times> yaml) list"

definition class_name :: "string \<Rightarrow> string" where
  "class_name t = ''<class '' @ [CHR 0x27] @ t @ [CHR 0x27] @ ''>''"

fun type_of :: "yaml \<Rightarrow> string" where
  "type_of (YStr s) = class_name ''str''"
| "type_of (YScalar t r) = class_name t"
| "type_of (YList xs) = class_name ''list''"
| "type_of (YMap kvs) = class_name ''dict''"

text \<open>
  \<open>metric not in SCORERS\<close> hashes the metric: a list or a mapping raises \<open>TypeError\<close>.
\<close>

fun not_in_SCORERS :: "string set \<Rightarrow> yaml \<Rightarrow> error + bool" where
  "not_in_SCORERS SCORERS (YStr s) = Inr (s \<notin> SCORERS)"
| "not_in_SCORERS SCORERS (YScalar t r) = Inr True"
| "not_in_SCORERS SCORERS (YList xs) = Inl (TypeError ''unhashable type: list'')"
| "not_in_SCORERS SCORERS (YMap kvs) = Inl (TypeError ''unhashable type: dict'')"

fun invalid_metrics :: "string set \<Rightarrow> yaml list \<Rightarrow> error + yaml list" where
  "invalid_metrics SCORERS [] = Inr []"
| "invalid_metrics SCORERS (metric # rest) =
     (case not_in_SCORERS SCORERS metric of
        Inl e \<Rightarrow> Inl e
      | Inr invalid \<Rightarrow>
          (case invalid_metrics SCORERS rest of
             Inl e \<Rightarrow> Inl e
           | Inr r \<Rightarrow> Inr (if invalid then metric # r else r)))"

text \<open>The text of the list of invalid metrics in the error message.\<close>

fun repr :: "yaml \<Rightarrow> string" where
  "repr (YStr s) = [CHR 0x27] @ s @ [CHR 0x27]"
| "repr (YScalar t r) = r"
| "repr v = []"

fun comma_separated :: "string list \<Rightarrow> string" where
  "comma_separated [] = []"
| "comma_separated [x] = x"
| "comma_separated (x # xs) = x @ '', '' @ comma_separated xs"

definition deprecated_message :: string where
  \<open>deprecated_message =
     ''The metric "mean_squared_error" is no longer supported.''
     @ '' please use the metric "neg_mean_squared_error" instead.''\<close>

definition parse_and_validate_metrics ::
    "(string \<Rightarrow> error + yaml) \<Rightarrow> string set \<Rightarrow> string \<Rightarrow> string \<Rightarrow> error + yaml list" where
  "parse_and_validate_metrics safe_load SCORERS metrics option_name =
     (case safe_load (fix_json metrics) of
        Inl e \<Rightarrow> Inl e
      | Inr (YList ms) \<Rightarrow>
          (if YStr ''mean_squared_error'' \<in> set ms
           then Inl (ValueError deprecated_message)
           else
             (case invalid_metrics SCORERS ms of
                Inl e \<Rightarrow> Inl e
              | Inr invalid \<Rightarrow>
                  (if invalid \<noteq> []
                   then Inl (ValueError (''Invalid metric(s) ['' @ comma_separated (map repr invalid)
                                         @ ''] specified for '' @ option_name))
                   else Inr ms)))
      | Inr parsed \<Rightarrow>
          Inl (TypeError (option_name @ '' should be a list, not a '' @ type_of parsed @ ''.'')))"

text \<open>
  A parser that knows one text, and a registry with a few of the names of the wrapped
  library, to run the validator on.
\<close>

definition sample_safe_load :: "string \<Rightarrow> error + yaml" where
  \<open>sample_safe_load text =
     (if text = ''["accuracy", "f1", "accuracy"]''
      then Inr (YList [YStr ''accuracy'', YStr ''f1'', YStr ''accuracy''])
      else Inl (LibraryError ''could not parse''))\<close>

definition sample_SCORERS :: "string set" where
  "sample_SCORERS = {''accuracy'', ''f1'', ''neg_mean_squared_error'', ''r2''}"

section \<open>config/utils.py: locate_file\<close>

text \<open>
  \<open>isabs\<close>, \<open>join\<close> and \<open>normpath\<close> of \<open>os.path\<close> on a POSIX system, written after the
  standard library; \<open>exists\<close> asks the file system and is a parameter.
\<close>

definition isabs :: "string \<Rightarrow> bool" where
  "isabs s \<longleftrightarrow> take 1 s = ''/''"

definition join :: "string \<Rightarrow> string \<Rightarrow> string" where
  "join a b =
     (if take 1 b = ''/'' then b
      else if a = [] \<or> last a = CHR ''/'' then a @ b
      else a @ ''/'' @ b)"

fun split_slash :: "string \<Rightarrow> string list" where
  "split_slash [] = [[]]"
| "split_slash (c # cs) =
     (if c = CHR ''/'' then [] # split_slash cs
      else (case split_slash cs of
              [] \<Rightarrow> [[c]]
            | w # ws \<Rightarrow> (c # w) # ws))"

fun join_slash :: "string list \<Rightarrow> string" where
  "join_slash [] = []"
| "join_slash [x] = x"
| "join_slash (x # xs) = x @ ''/'' @ join_slash xs"

text \<open>One round of the loop of \<open>normpath\<close> over the components of the path.\<close>

definition norm_step :: "nat \<Rightarrow> string list \<Rightarrow> string \<Rightarrow> string list" where
  "norm_step initial_slashes new_comps name =
     (if name = [] \<or> name = ''.'' then new_comps
      else if name \<noteq> ''..'' \<or> (initial_slashes = 0 \<and> new_comps = [])
                \<or> (new_comps \<noteq> [] \<and> last new_comps = ''..'')
      then new_comps @ [name]
      else if new_comps \<noteq> [] then butlast new_comps
      else new_comps)"

definition normpath :: "string \<Rightarrow> string" where
  "normpath path =
     (if path = [] then ''.''
      else
        (let initial_slashes =
               (if take 1 path = ''/''
                then (if take 2 path = ''//'' \<and> take 3 path \<noteq> ''///'' then 2 else 1)
                else 0);
             comps = foldl (norm_step initial_slashes) [] (split_slash path);
             path' = replicate initial_slashes CHR ''/'' @ join_slash comps
         in if path' = [] then ''.'' else path'))"

definition ENOENT :: nat where
  "ENOENT = 2"

definition locate_file :: "(string \<Rightarrow> bool) \<Rightarrow> string \<Rightarrow> string \<Rightarrow> error + string" where
  "locate_file exists file_path config_dir =
     (if file_path = [] then Inr []
      else
        (let path_to_check = (if isabs file_path then file_path
                              else normpath (join config_dir file_path));
             ans = exists path_to_check
         in if \<not> ans then Inl (IOError ENOENT ''File does not exist'' path_to_check)
            else Inr path_to_check))"

text \<open>
  A file system with the directory \<open>/data\<close> and the one file \<open>/train.jsonlines\<close>: the
  paths that exist are those that lead to the file or to the directory.
\<close>

definition sample_exists :: "string \<Rightarrow> bool" where
  "sample_exists path \<longleftrightarrow> normpath path = ''/train.jsonlines'' \<or> normpath path = ''/data''"

section \<open>learner/utils.py: train_and_score\<close>

text \<open>
  The \<open>Learner\<close> class is not among the sources.  Of a learner the function reads the
  estimator type of its model, its list of labels and its label-to-index dictionary.
  The dictionary is a mutable object that the learner refers to: a world holds the
  dictionary objects in a store, indexed by their address, and the learner holds an
  address (\<open>None\<close> while it has no dictionary).  The rest of the learner's state is \<open>other_state\<close>.
\<close>

record 'l learner =
  estimator_type_of_model :: string
  label_list :: "'l list"
  label_dict :: "nat option"

record ('l, 's) world =
  learner :: "'l learner"
  dicts :: "('l \<rightharpoonup> nat) list"
  other_state :: 's

record ('l, 'f) examples =
  labels :: "'l list"
  features :: 'f

text \<open>The dictionary that the learner refers to.\<close>

definition mapping_of :: "('l, 's) world \<Rightarrow> ('l \<rightharpoonup> nat) option" where
  "mapping_of w =
     (case label_dict (learner w) of
        None \<Rightarrow> None
      | Some a \<Rightarrow> (if a < length (dicts w) then Some (dicts w ! a) else None))"

text \<open>
  \<open>dict.copy()\<close> makes a new object, at a new address; \<open>dict.update\<close> changes the object
  at the address it is given.
\<close>

definition copy :: "nat \<Rightarrow> ('l, 's) world \<Rightarrow> nat \<times> ('l, 's) world" where
  "copy a w = (length (dicts w), w\<lparr>dicts := dicts w @ [dicts w ! a]\<rparr>)"

definition update :: "nat \<Rightarrow> ('l \<rightharpoonup> nat) \<Rightarrow> ('l, 's) world \<Rightarrow> ('l, 's) world" where
  "update a other w = w\<lparr>dicts := (dicts w)[a := (dicts w ! a) ++ other]\<rparr>"

text \<open>
  The labels of the test set that the learner does not know, in the order of
  \<open>np.unique\<close>, numbered from the number of labels that it knows.
\<close>

definition unseen_test_label_list :: "('l::linorder) learner \<Rightarrow> ('l, 'f) examples \<Rightarrow> 'l list" where
  "unseen_test_label_list l test_examples =
     (let test_label_list = sort (remdups (labels test_examples))
      in filter (\<lambda>label. label \<notin> set (label_list l)) test_label_list)"

definition unseen_label_dict :: "('l::linorder) learner \<Rightarrow> ('l, 'f) examples \<Rightarrow> ('l \<rightharpoonup> nat)" where
  "unseen_label_dict l test_examples =
     (let unseen = unseen_test_label_list l test_examples
      in map_of (zip unseen [length (label_list l) ..< length (label_list l) + length unseen]))"

text \<open>\<open>[d[label] for label in labels]\<close>: a label that is not a key raises \<open>KeyError\<close>.\<close>

fun indices :: "('l \<rightharpoonup> nat) \<Rightarrow> 'l list \<Rightarrow> error + nat list" where
  "indices d [] = Inr []"
| "indices d (label # rest) =
     (case d label of
        None \<Rightarrow> Inl KeyError
      | Some i \<Rightarrow> (case indices d rest of Inl e \<Rightarrow> Inl e | Inr r \<Rightarrow> Inr (i # r)))"

text \<open>
  The branch for a classifier.  On a learner without a dictionary \<open>.copy()\<close> raises
  \<open>AttributeError\<close>.
\<close>

definition index_labels :: "('l::linorder, 's) world \<Rightarrow> ('l, 'f) examples \<Rightarrow> ('l, 'f) examples
    \<Rightarrow> (error + nat list \<times> nat list) \<times> ('l, 's) world" where
  "index_labels w train_examples test_examples =
     (case mapping_of w of
        None \<Rightarrow> (Inl (AttributeError ''copy''), w)
      | Some m \<Rightarrow>
          (case copy (the (label_dict (learner w))) w of
             (train_and_test_label_dict, w1) \<Rightarrow>
               (let w2 = update train_and_test_label_dict
                           (unseen_label_dict (learner w) test_examples) w1
                in case indices (dicts w2 ! train_and_test_label_dict) (labels train_examples) of
                     Inl e \<Rightarrow> (Inl e, w2)
                   | Inr train_labels \<Rightarrow>
                       (case indices (dicts w2 ! train_and_test_label_dict) (labels test_examples) of
                          Inl e \<Rightarrow> (Inl e, w2)
                        | Inr test_labels \<Rightarrow> (Inr (train_labels, test_labels), w2)))))"

text \<open>
  The three calls on the learner.  \<open>train\<close> and \<open>predict\<close> are the methods of the learner
  (parameters, as \<open>use_score_func\<close> is below): each returns its result, or the exception
  it raises, and the world it leaves.
\<close>

definition run_learner ::
    "(('l, 'f) examples \<Rightarrow> ('l, 's) world \<Rightarrow> (error + unit) \<times> ('l, 's) world)
     \<Rightarrow> (('l, 'f) examples \<Rightarrow> ('l, 's) world \<Rightarrow> (error + 'p) \<times> ('l, 's) world)
     \<Rightarrow> ('l, 's) world \<Rightarrow> ('l, 'f) examples \<Rightarrow> ('l, 'f) examples
     \<Rightarrow> (error + 'p \<times> 'p) \<times> ('l, 's) world" where
  "run_learner train predict_of w train_examples test_examples =
     (case train train_examples w of
        (Inl e, w1) \<Rightarrow> (Inl e, w1)
      | (Inr u, w1) \<Rightarrow>
          (case predict_of train_examples w1 of
             (Inl e, w2) \<Rightarrow> (Inl e, w2)
           | (Inr train_predictions, w2) \<Rightarrow>
               (case predict_of test_examples w2 of
                  (Inl e, w3) \<Rightarrow> (Inl e, w3)
                | (Inr test_predictions, w3) \<Rightarrow>
                    (Inr (train_predictions, test_predictions), w3))))"

text \<open>
  The function: the scores or the exception, and the world afterwards.  The labels that
  are scored are indices for a classifier and the labels themselves otherwise.
\<close>

definition train_and_score ::
    "(('l::linorder, 'f) examples \<Rightarrow> ('l, 's) world \<Rightarrow> (error + unit) \<times> ('l, 's) world)
     \<Rightarrow> (('l, 'f) examples \<Rightarrow> ('l, 's) world \<Rightarrow> (error + 'p) \<times> ('l, 's) world)
     \<Rightarrow> (string \<Rightarrow> nat list + 'l list \<Rightarrow> 'p \<Rightarrow> error + real)
     \<Rightarrow> ('l, 's) world \<Rightarrow> ('l, 'f) examples \<Rightarrow> ('l, 'f) examples \<Rightarrow> string
     \<Rightarrow> (error + real \<times> real) \<times> ('l, 's) world" where
  "train_and_score train predict_of use_score_func w train_examples test_examples metric =
     (case run_learner train predict_of w train_examples test_examples of
        (Inl e, w3) \<Rightarrow> (Inl e, w3)
      | (Inr (train_predictions, test_predictions), w3) \<Rightarrow>
          (case (if estimator_type_of_model (learner w3) = ''classifier''
                 then (case index_labels w3 train_examples test_examples of
                         (Inl e, w4) \<Rightarrow> (Inl e, w4)
                       | (Inr (train_labels, test_labels), w4) \<Rightarrow>
                           (Inr (Inl train_labels, Inl test_labels), w4))
                 else (Inr (Inr (labels train_examples), Inr (labels test_examples)), w3)) of
             (Inl e, w4) \<Rightarrow> (Inl e, w4)
           | (Inr (train_labels, test_labels), w4) \<Rightarrow>
               (case use_score_func metric train_labels train_predictions of
                  Inl e \<Rightarrow> (Inl e, w4)
                | Inr train_score \<Rightarrow>
                    (case use_score_func metric test_labels test_predictions of
                       Inl e \<Rightarrow> (Inl e, w4)
                     | Inr test_score \<Rightarrow> (Inr (train_score, test_score), w4)))))"

text \<open>
  A learner to run the function on: it is already trained on the labels 10 and 20,
  \<open>train\<close> only counts the fits, \<open>predict\<close> answers index 0 for every example, and the
  score is the number of examples.
\<close>

definition sample_world :: "(int, nat) world" where
  "sample_world =
     \<lparr>learner = \<lparr>estimator_type_of_model = ''classifier'', label_list = [10, 20],
                  label_dict = Some 0\<rparr>,
      dicts = [[10 \<mapsto> 0, 20 \<mapsto> 1]],
      other_state = 0\<rparr>"

definition sample_train :: "(int, unit) examples \<Rightarrow> (int, nat) world \<Rightarrow> (error + unit) \<times> (int, nat) world" where
  "sample_train ex w = (Inr (), w\<lparr>other_state := other_state w + 1\<rparr>)"

definition sample_predict :: "(int, unit) examples \<Rightarrow> (int, nat) world
    \<Rightarrow> (error + nat list) \<times> (int, nat) world" where
  "sample_predict ex w = (Inr (map (\<lambda>label. 0) (labels ex)), w)"

definition sample_score :: "string \<Rightarrow> nat list + int list \<Rightarrow> nat list \<Rightarrow> error + real" where
  "sample_score metric gold predictions = Inr (real (length predictions))"

text \<open>
  A learner that has not been trained, and a \<open>train\<close> that builds the list of labels
  and the dictionary from the training examples, as a learner for classification does.
\<close>

definition untrained_world :: "(int, nat) world" where
  "untrained_world =
     \<lparr>learner = \<lparr>estimator_type_of_model = ''classifier'', label_list = [],
                  label_dict = None\<rparr>,
      dicts = [],
      other_state = 0\<rparr>"

definition building_train :: "(int, unit) examples \<Rightarrow> (int, nat) world
    \<Rightarrow> (error + unit) \<times> (int, nat) world" where
  "building_train ex w =
     (let known = sort (remdups (labels ex))
      in (Inr (),
          w\<lparr>learner := (learner w)\<lparr>label_list := known, label_dict := Some (length (dicts w))\<rparr>,
            dicts := dicts w @ [map_of (zip known [0 ..< length known])]\<rparr>))"

section \<open>Densifier: what fit_transform returns\<close>

text \<open>
  C9. For every input \<open>X\<close> and every \<open>y\<close>, \<open>Densifier.fit_transform\<close> returns the
  Densifier instance itself, while \<open>Densifier.transform\<close> on the same \<open>X\<close> returns the
  dense matrix; so the two results differ and the caller of \<open>fit_transform\<close> is not
  handed densified data.
\<close>

theorem fit_transform_returns_self:
  "fit_transform self X y = Self self
   \<and> transform self X = Dense (todense X)
   \<and> fit_transform self X y \<noteq> transform self X"
  by (simp add: fit_transform_def transform_def)

section \<open>FilteredLeaveOneGroupOut: the yielded folds\<close>

lemma filter_index_Inr:
  "filter_index kp ids idx = Inr r \<Longrightarrow> r = filter (\<lambda>i. ids ! i \<in> kp) idx"
  by (induction idx arbitrary: r) (auto split: if_splits sum.splits)

lemma filter_index_in_range:
  "\<forall>i\<in>set idx. i < length ids \<Longrightarrow>
     filter_index kp ids idx = Inr (filter (\<lambda>i. ids ! i \<in> kp) idx)"
  by (induction idx) auto

lemma warn_if_filtered_frame [simp]:
  "keep (warn_if_filtered self a b tr te) = keep self"
  "example_ids (warn_if_filtered self a b tr te) = example_ids self"
  by (simp_all add: warn_if_filtered_def)

lemma split_folds_yields:
  "split_folds self base = (ys, e, self') \<Longrightarrow>
     ys = map (\<lambda>(tr, te). (filter (\<lambda>i. example_ids self ! i \<in> keep self) tr,
                           filter (\<lambda>i. example_ids self ! i \<in> keep self) te))
              (take (length ys) base)"
proof (induction self base arbitrary: ys e self' rule: split_folds.induct)
  case (1 self)
  then show ?case by simp
next
  case (2 self train_index test_index rest)
  then show ?case
    by (auto split: sum.splits prod.splits dest!: filter_index_Inr)
qed

lemma split_folds_total:
  "\<forall>(tr, te)\<in>set base. \<forall>i\<in>set tr \<union> set te. i < length (example_ids self) \<Longrightarrow>
   split_folds self base = (ys, e, self') \<Longrightarrow> e = None \<and> length ys = length base"
proof (induction self base arbitrary: ys e self' rule: split_folds.induct)
  case (1 self)
  then show ?case by simp
next
  case (2 self train_index test_index rest)
  have tr: "filter_index (keep self) (example_ids self) train_index
             = Inr (filter (\<lambda>i. example_ids self ! i \<in> keep self) train_index)"
    using "2.prems"(1) by (intro filter_index_in_range) auto
  have te: "filter_index (keep self) (example_ids self) test_index
             = Inr (filter (\<lambda>i. example_ids self ! i \<in> keep self) test_index)"
    using "2.prems"(1) by (intro filter_index_in_range) auto
  from "2.IH"[OF tr te] "2.prems" tr te show ?case
    by (auto split: prod.splits)
qed

text \<open>
  C8. For every keep-set and every list of example IDs by row index, the pairs that the
  filtered splitter yields are, fold by fold and in the original order, the train and
  test indices of the underlying split whose example ID is in the keep-set; and when
  every index of the underlying split is a row of the ID list, every fold of the
  underlying split is yielded and no exception ends the generator.
\<close>

theorem split_yields_kept_indices:
  assumes "split super_split self X y groups = (ys, e, self')"
  shows "ys = map (\<lambda>(tr, te). (filter (\<lambda>i. example_ids self ! i \<in> keep self) tr,
                                filter (\<lambda>i. example_ids self ! i \<in> keep self) te))
                   (take (length ys) (super_split X y groups))
         \<and> ((\<forall>(tr, te)\<in>set (super_split X y groups).
                \<forall>i\<in>set tr \<union> set te. i < length (example_ids self))
              \<longrightarrow> e = None \<and> length ys = length (super_split X y groups))"
  using assms split_folds_yields[of self "super_split X y groups" ys e self']
    split_folds_total[of "super_split X y groups" self ys e self']
  unfolding split_def by blast

text \<open>
  The example of the claim: IDs \<open>[A, B, C, D]\<close>, keep-set \<open>{A, C}\<close>, a fold with train
  \<open>[0, 1]\<close> and test \<open>[2, 3]\<close> (and the mirrored fold after it).  The warning is logged
  once although both folds lose indices.
\<close>

theorem split_yields_kept_indices_witness:
  "split (\<lambda>X y groups. [([0, 1], [2, 3]), ([2, 3], [0, 1])])
         (FilteredLeaveOneGroupOut {''A'', ''C''} [''A'', ''B'', ''C'', ''D'']) () () ()
     = ([([0], [2]), ([2], [0])], None,
        \<lparr>keep = {''A'', ''C''}, example_ids = [''A'', ''B'', ''C'', ''D''], warned = True,
         logger = [skip_warning]\<rparr>)
   \<and> [([0], [2]), ([2], [0])]
       = map (\<lambda>(tr, te). (filter (\<lambda>i. [''A'', ''B'', ''C'', ''D''] ! i \<in> {''A'', ''C''}) tr,
                            filter (\<lambda>i. [''A'', ''B'', ''C'', ''D''] ! i \<in> {''A'', ''C''}) te))
             [([0, 1], [2, 3]), ([2, 3], [0 :: nat, 1])]"
proof -
  have run: "split (\<lambda>X y groups. [([0, 1], [2, 3]), ([2, 3], [0, 1])])
         (FilteredLeaveOneGroupOut {''A'', ''C''} [''A'', ''B'', ''C'', ''D'']) () () ()
     = ([([0], [2]), ([2], [0])], None,
        \<lparr>keep = {''A'', ''C''}, example_ids = [''A'', ''B'', ''C'', ''D''], warned = True,
         logger = [skip_warning]\<rparr>)"
    by (simp add: split_def FilteredLeaveOneGroupOut_def warn_if_filtered_def)
  show ?thesis
    using run split_yields_kept_indices[OF run]
    by (simp add: FilteredLeaveOneGroupOut_def)
qed

section \<open>contiguous_ints_or_floats: wrap-around and string formatting\<close>

lemma diff_all:
  "list_all P (diff xs) \<longleftrightarrow> (\<forall>i. Suc i < length xs \<longrightarrow> P (xs ! Suc i - xs ! i))"
proof (induction xs rule: diff.induct)
  case (1 x y rest)
  show ?case
  proof
    assume "list_all P (diff (x # y # rest))"
    with 1 have ih: "\<forall>i. Suc i < length (y # rest) \<longrightarrow> P ((y # rest) ! Suc i - (y # rest) ! i)"
      and h: "P (y - x)" by simp_all
    show "\<forall>i. Suc i < length (x # y # rest) \<longrightarrow> P ((x # y # rest) ! Suc i - (x # y # rest) ! i)"
    proof (intro allI impI)
      fix i assume "Suc i < length (x # y # rest)"
      then show "P ((x # y # rest) ! Suc i - (x # y # rest) ! i)"
        using ih h by (cases i) auto
    qed
  next
    assume a: "\<forall>i. Suc i < length (x # y # rest) \<longrightarrow> P ((x # y # rest) ! Suc i - (x # y # rest) ! i)"
    from a[rule_format, of 0] have h: "P (y - x)" by simp
    have "\<forall>i. Suc i < length (y # rest) \<longrightarrow> P ((y # rest) ! Suc i - (y # rest) ! i)"
    proof (intro allI impI)
      fix i assume "Suc i < length (y # rest)"
      then show "P ((y # rest) ! Suc i - (y # rest) ! i)"
        using a[rule_format, of "Suc i"] by simp
    qed
    with 1 h show "list_all P (diff (x # y # rest))" by simp
  qed
qed simp_all

lemma mod1_all_zero:
  "list_all (\<lambda>x. mod1 x = 0) xs \<longleftrightarrow> (\<forall>x\<in>set xs. frac x = 0)"
  by (induction xs) (auto simp: mod1_def frac_def)

lemma wrap_step:
  assumes "lowest t \<le> x" "x < y" "y \<le> highest t"
  shows "wrap t (y - x) = 1 \<longleftrightarrow> y - x = 1"
proof -
  define M :: int where "M = 2 ^ bits t"
  have lo: "0 \<le> 1 - lowest t" "1 - lowest t < M" unfolding M_def by (cases t; simp)+
  from assms have d: "0 < y - x" "y - x < M" unfolding highest_def M_def by linarith+
  have w: "wrap t v = (v - lowest t) mod M + lowest t" for v by (simp add: wrap_def M_def)
  have one: "(1 - lowest t) mod M = 1 - lowest t"
    using lo by (intro mod_pos_pos_trivial)
  show ?thesis
  proof
    assume "y - x = 1"
    with one show "wrap t (y - x) = 1" by (simp add: w)
  next
    assume "wrap t (y - x) = 1"
    then have "(y - x - lowest t) mod M = 1 - lowest t" by (simp add: w)
    with one have "(y - x - lowest t) mod M = (1 - lowest t) mod M" by simp
    then have "M dvd (y - x - lowest t) - (1 - lowest t)" by (simp add: mod_eq_dvd_iff)
    then have "M dvd y - x - 1" by (simp add: algebra_simps)
    moreover from d have "0 \<le> y - x - 1" "y - x - 1 < M" by linarith+
    ultimately have "y - x - 1 = 0" using zdvd_not_zless[of "y - x - 1" M] by force
    then show "y - x = 1" by simp
  qed
qed

lemma contiguous_float_array:
  assumes "xs \<noteq> []"
  shows "contiguous_ints_or_floats py (FloatArr t xs) = Inr (fractional_parts_zero_and_steps_one xs)"
proof -
  have "contiguous_ints_or_floats py (FloatArr t xs)
          = Inr (list_all (\<lambda>x. mod1 x = 0) xs \<and> list_all (\<lambda>d. d = 1) (diff xs))"
    using assms by (simp add: contiguous_ints_or_floats_def np_all_def list_all_iff)
  then show ?thesis
    unfolding mod1_all_zero diff_all fractional_parts_zero_and_steps_one_def .
qed

lemma contiguous_int_array:
  assumes "xs \<noteq> []" and "well_formed (IntArr t xs)" and "sorted_wrt (\<lambda>x y. x < y) xs"
  shows "contiguous_ints_or_floats py (IntArr t xs)
           = Inr (fractional_parts_zero_and_steps_one (map of_int xs))"
proof -
  have c: "contiguous_ints_or_floats py (IntArr t xs)
          = Inr (list_all (\<lambda>d. wrap t d = 1) (diff xs))"
    using assms(1) by (simp add: contiguous_ints_or_floats_def np_all_def list_all_iff)
  have "wrap t (xs ! Suc i - xs ! i) = 1 \<longleftrightarrow> xs ! Suc i - xs ! i = 1" if "Suc i < length xs" for i
  proof (rule wrap_step)
    from that assms(2) show "lowest t \<le> xs ! i" "xs ! Suc i \<le> highest t"
      by (simp_all add: list_all_length)
    from that assms(3) show "xs ! i < xs ! Suc i"
      by (simp add: sorted_wrt_nth_less)
  qed
  then have "list_all (\<lambda>d. wrap t d = 1) (diff xs)
               \<longleftrightarrow> (\<forall>i. Suc i < length xs \<longrightarrow> xs ! Suc i - xs ! i = 1)"
    unfolding diff_all by blast
  also have "\<dots> \<longleftrightarrow> (\<forall>i. Suc i < length xs \<longrightarrow>
                 real_of_int (xs ! Suc i) - real_of_int (xs ! i) = 1)"
    by (metis of_int_diff of_int_eq_1_iff)
  finally show ?thesis
    unfolding c fractional_parts_zero_and_steps_one_def by auto
qed

text \<open>
  C3. Two inputs on which the function does not do what the claim says.  In the 64-bit
  integer array of \<open>2^63 - 1\<close> and \<open>-2^63\<close> the difference wraps around to 1 and the
  function returns true, although the difference of the two numbers is not 1.  In the
  object array of the one string \<open>%d\<close> the remainder is string formatting, nothing is
  raised and the function returns false, although the element is not a number.
\<close>

theorem contiguous_ints_or_floats_wraps_and_formats:
  "contiguous_ints_or_floats sample_python
       (IntArr Int64 [9223372036854775807, - 9223372036854775808]) = Inr True
   \<and> well_formed (IntArr Int64 [9223372036854775807, - 9223372036854775808])
   \<and> (- 9223372036854775808) - 9223372036854775807 \<noteq> (1 :: int)
   \<and> contiguous_ints_or_floats sample_python (ObjArr [PStr ''%d'']) = Inr False"
  by (simp add: contiguous_ints_or_floats_def np_all_def wrap_def highest_def sample_python_def)

section \<open>The acceptable metrics of a label array\<close>

text \<open>
  C1, as stated, fails on the empty numeric array, where the contiguity check raises its
  \<open>ValueError\<close> and no set is returned, and on a numeric array of a type that the second
  \<open>issubclass\<close> test does not name, for which the correlation metrics are not added.
\<close>

theorem acceptable_metrics_empty_or_unnamed_numeric:
  "get_acceptable_classification_metrics sample_python sample_constants (FloatArr Float64 [])
     = Inl (ValueError ''Input cannot be empty.'')
   \<and> get_acceptable_classification_metrics sample_python sample_constants (IntArr Int16 [1, 2, 3])
     = Inr ({''accuracy'', ''f1''} \<union> {''unweighted_kappa'', ''uwk_off_by_one''})"
  by (simp add: get_acceptable_classification_metrics_def is_object_or_str_def
      is_named_int_or_float_def contiguous_ints_or_floats_def sample_constants_def)

text \<open>
  C1, amended. For every sorted array of unique labels that is not empty, the resolver
  returns exactly the classification-only metrics and the unweighted-agreement metrics
  when the element type is textual; when the element type is one of the numeric types
  that the function names (32- and 64-bit integers and floats) it returns these and the
  correlation metrics, together with the weighted-agreement metrics exactly when every
  label's fractional part is zero and every consecutive difference is 1.
\<close>

theorem acceptable_metrics_of_nonempty_labels:
  assumes "0 < len label_array" and "well_formed label_array" and "sorted_unique label_array"
  shows "(is_object_or_str (dtype_type label_array) \<longrightarrow>
            get_acceptable_classification_metrics py c label_array
              = Inr (CLASSIFICATION_ONLY_METRICS c \<union> UNWEIGHTED_KAPPA_METRICS c))
       \<and> (is_named_int_or_float (dtype_type label_array) \<longrightarrow>
            (\<exists>xs. numbers_of label_array = Some xs
               \<and> get_acceptable_classification_metrics py c label_array
                   = Inr (CLASSIFICATION_ONLY_METRICS c \<union> UNWEIGHTED_KAPPA_METRICS c
                          \<union> CORRELATION_METRICS c
                          \<union> (if fractional_parts_zero_and_steps_one xs
                              then WEIGHTED_KAPPA_METRICS c else {}))))"
proof (cases label_array)
  case (IntArr t xs)
  from assms(3) IntArr have "sorted_wrt (\<lambda>x y. x < y) xs"
    by (simp add: sorted_unique_def sorted_wrt_map)
  with assms(1,2) IntArr
  have "contiguous_ints_or_floats py label_array
          = Inr (fractional_parts_zero_and_steps_one (map of_int xs))"
    by (simp add: contiguous_int_array)
  with IntArr show ?thesis
    by (simp add: get_acceptable_classification_metrics_def is_object_or_str_def
        is_named_int_or_float_def)
next
  case (FloatArr t xs)
  with assms(1) contiguous_float_array[of xs py t] show ?thesis
    by (simp add: get_acceptable_classification_metrics_def is_object_or_str_def
        is_named_int_or_float_def)
next
  case (StrArr xs)
  then show ?thesis
    by (simp add: get_acceptable_classification_metrics_def is_object_or_str_def
        is_named_int_or_float_def)
next
  case (ObjArr xs)
  then show ?thesis
    by (simp add: get_acceptable_classification_metrics_def is_object_or_str_def
        is_named_int_or_float_def)
qed

text \<open>
  Three label arrays: strings, contiguous 64-bit integers, and 64-bit floats that are
  not contiguous.
\<close>

theorem acceptable_metrics_of_nonempty_labels_witness:
  "get_acceptable_classification_metrics sample_python sample_constants (StrArr [''cat'', ''dog''])
     = Inr ({''accuracy'', ''f1''} \<union> {''unweighted_kappa'', ''uwk_off_by_one''})
   \<and> get_acceptable_classification_metrics sample_python sample_constants (IntArr Int64 [1, 2, 3])
     = Inr ({''accuracy'', ''f1''} \<union> {''unweighted_kappa'', ''uwk_off_by_one''}
            \<union> {''kendall_tau'', ''pearson'', ''spearman''}
            \<union> {''linear_weighted_kappa'', ''quadratic_weighted_kappa''})
   \<and> fractional_parts_zero_and_steps_one [1, 2, 3]
   \<and> get_acceptable_classification_metrics sample_python sample_constants
        (FloatArr Float64 [1, 5 / 2])
     = Inr ({''accuracy'', ''f1''} \<union> {''unweighted_kappa'', ''uwk_off_by_one''}
            \<union> {''kendall_tau'', ''pearson'', ''spearman''})
   \<and> \<not> fractional_parts_zero_and_steps_one [1, 5 / 2]"
proof -
  have a: "contiguous_ints_or_floats sample_python (IntArr Int64 [1, 2, 3]) = Inr True"
    by (simp add: contiguous_ints_or_floats_def np_all_def wrap_def)
  have b: "contiguous_ints_or_floats sample_python (FloatArr Float64 [1, 5 / 2]) = Inr False"
    by (simp add: contiguous_ints_or_floats_def np_all_def mod1_def)
  have wi: "well_formed (IntArr Int64 [1, 2, 3])" by (simp add: highest_def)
  have si: "sorted_unique (IntArr Int64 [1, 2, 3])" by (simp add: sorted_unique_def)
  have a': "fractional_parts_zero_and_steps_one [1, 2, 3]"
    using a contiguous_int_array[of "[1, 2, 3]" Int64 sample_python] wi by simp
  have b': "\<not> fractional_parts_zero_and_steps_one [1, 5 / 2]"
    using b contiguous_float_array[of "[1, 5 / 2]" sample_python Float64] by simp
  have s: "(0::nat) < len (StrArr [''cat'', ''dog''])" by simp
  have ws: "well_formed (StrArr [''cat'', ''dog''])" by simp
  have ss: "sorted_unique (StrArr [''cat'', ''dog''])" by (simp add: sorted_unique_def)
  have i: "(0::nat) < len (IntArr Int64 [1, 2, 3])" by simp
  have f: "(0::nat) < len (FloatArr Float64 [1, 5 / 2])" by simp
  have wf: "well_formed (FloatArr Float64 [1, 5 / 2])" by simp
  have sf: "sorted_unique (FloatArr Float64 [1, 5 / 2])" by (simp add: sorted_unique_def)
  show ?thesis
    using a' b'
      acceptable_metrics_of_nonempty_labels[OF s ws ss, of sample_python sample_constants]
      acceptable_metrics_of_nonempty_labels[OF i wi si, of sample_python sample_constants]
      acceptable_metrics_of_nonempty_labels[OF f wf sf, of sample_python sample_constants]
    by (simp add: is_object_or_str_def is_named_int_or_float_def sample_constants_def
        insert_commute)
qed

section \<open>rescaled: constrained predictions\<close>

lemma py_min_Min: "ys \<noteq> [] \<Longrightarrow> py_min ys = Inr (Min (set ys))"
proof (cases ys)
  case (Cons x xs)
  have f: "(\<lambda>m v. if v < m then v else m) = (\<lambda>m v::real. min v m)"
    by (intro ext) (simp add: min_def)
  show ?thesis unfolding Cons
    by (simp add: f foldl_conv_fold Min.set_eq_fold del: set_simps)
qed simp

lemma py_max_Max: "ys \<noteq> [] \<Longrightarrow> py_max ys = Inr (Max (set ys))"
proof (cases ys)
  case (Cons x xs)
  have f: "(\<lambda>m v. if m < v then v else m) = (\<lambda>m v::real. max v m)"
    by (intro ext) (simp add: max_def)
  show ?thesis unfolding Cons
    by (simp add: f foldl_conv_fold Max.set_eq_fold del: set_simps)
qed simp

lemma clamp_in_range:
  assumes "lo \<le> hi"
  shows "\<exists>p. py_max2 (Fin lo) (py_min2 (Fin hi) v) = Fin p \<and> lo \<le> p \<and> p \<le> hi"
  using assms by (cases v) (auto simp: py_max2_def py_min2_def)

lemma record_min_max_Inr:
  assumes "record_min_max self y = Inr self'"
  shows "\<exists>ys. y = Some ys \<and> ys \<noteq> []
           \<and> self' = self\<lparr>y_min := Some (Min (set ys)), y_max := Some (Max (set ys))\<rparr>"
proof (cases y)
  case None
  with assms show ?thesis by (simp add: record_min_max_def)
next
  case (Some ys)
  show ?thesis
  proof (cases "ys = []")
    case True
    with assms Some show ?thesis by (simp add: record_min_max_def)
  next
    case False
    with assms Some show ?thesis
      by (auto simp: record_min_max_def py_min_Min py_max_Max)
  qed
qed

lemma record_mean_sd_frame:
  assumes "record_mean_sd np orig_predict self X y = Inr self'"
  shows "constrain self' = constrain self \<and> rescale self' = rescale self
       \<and> y_min self' = y_min self \<and> y_max self' = y_max self \<and> estimator self' = estimator self
       \<and> yhat_mean self' \<noteq> None \<and> yhat_sd self' \<noteq> None \<and> y_mean self' \<noteq> None \<and> y_sd self' \<noteq> None"
  using assms by (auto simp: record_mean_sd_def split: sum.splits option.splits)

lemma fit_constrain_Inr:
  assumes "fit np orig_fit orig_predict self X y = Inr self'" and "constrain self"
  shows "\<exists>ys. y = Some ys \<and> ys \<noteq> [] \<and> constrain self'
           \<and> y_min self' = Some (Min (set ys)) \<and> y_max self' = Some (Max (set ys))"
proof -
  from assms obtain m s1 where m: "orig_fit (estimator self) X y = Inr m"
    and s1: "record_min_max (self\<lparr>estimator := m\<rparr>) y = Inr s1"
    and r: "(if rescale s1 then record_mean_sd np orig_predict s1 X y else Inr s1) = Inr self'"
    by (auto simp: fit_def split: sum.splits if_splits)
  from record_min_max_Inr[OF s1] obtain ys where l: "y = Some ys" "ys \<noteq> []"
    and e: "s1 = self\<lparr>estimator := m\<rparr>\<lparr>y_min := Some (Min (set ys)), y_max := Some (Max (set ys))\<rparr>"
    by blast
  show ?thesis
  proof (cases "rescale s1")
    case True
    with r have "record_mean_sd np orig_predict s1 X y = Inr self'" by simp
    from record_mean_sd_frame[OF this] l e assms(2) show ?thesis by simp
  next
    case False
    with r l e assms(2) show ?thesis by auto
  qed
qed

lemma fit_rescale_Inr:
  assumes "fit np orig_fit orig_predict self X y = Inr self'"
  shows "rescale self' = rescale self \<and> constrain self' = constrain self
         \<and> (rescale self \<longrightarrow> yhat_mean self' \<noteq> None \<and> yhat_sd self' \<noteq> None \<and> y_mean self' \<noteq> None \<and> y_sd self' \<noteq> None)"
proof -
  from assms obtain m s1 where m: "orig_fit (estimator self) X y = Inr m"
    and s1: "(if constrain self then record_min_max (self\<lparr>estimator := m\<rparr>) y
                 else Inr (self\<lparr>estimator := m\<rparr>)) = Inr s1"
    and r: "(if rescale s1 then record_mean_sd np orig_predict s1 X y else Inr s1) = Inr self'"
    by (auto simp: fit_def split: sum.splits)
  have f1: "rescale s1 = rescale self \<and> constrain s1 = constrain self"
    using s1 by (auto split: if_splits dest!: record_min_max_Inr)
  show ?thesis
  proof (cases "rescale s1")
    case True
    with r have "record_mean_sd np orig_predict s1 X y = Inr self'" by simp
    from record_mean_sd_frame[OF this] f1 show ?thesis by simp
  next
    case False
    with r f1 show ?thesis by auto
  qed
qed

lemma rescaled_Patched:
  assumes "rescaled np cls = Inr (Patched dcls)"
  shows "\<exists>orig_fit orig_predict.
           fit_attr cls = Some orig_fit \<and> predict_attr cls = Some orig_predict
           \<and> init_method dcls = init (init_attr cls)
           \<and> fit_method dcls = fit np orig_fit orig_predict
           \<and> predict_method dcls = predict orig_predict"
  using assms
  by (auto simp: rescaled_def override_def Let_def split: if_splits option.splits)

lemma init_Inr:
  assumes "init orig_init (c, r, kwargs) = Inr self"
  shows "constrain self = c" and "rescale self = r"
  using assms by (auto simp: init_def split: sum.splits)

lemma constrain_predictions_in_range:
  assumes "y_min self = Some lo" and "y_max self = Some hi" and "lo \<le> hi"
  shows "\<exists>res'. constrain_predictions self res = Inr res' \<and> length res' = length res
            \<and> (\<forall>v\<in>set res'. \<exists>p. v = Fin p \<and> lo \<le> p \<and> p \<le> hi)"
proof (cases "res = []")
  case True
  then show ?thesis by (simp add: constrain_predictions_def)
next
  case False
  have "\<forall>v\<in>set (map (\<lambda>pred. py_max2 (Fin lo) (py_min2 (Fin hi) pred)) res).
          \<exists>p. v = Fin p \<and> lo \<le> p \<and> p \<le> hi"
    using clamp_in_range[OF assms(3)] by auto
  with False assms(1,2) show ?thesis
    by (simp add: constrain_predictions_def)
qed

lemma rescale_predictions_Inr:
  assumes "yhat_mean self \<noteq> None" "yhat_sd self \<noteq> None" "y_mean self \<noteq> None" "y_sd self \<noteq> None"
  shows "\<exists>res'. rescale_predictions self res = Inr res' \<and> length res' = length res"
  using assms by (auto simp: rescale_predictions_def)

lemma predict_constrained:
  assumes c: "constrain self" and lo: "y_min self = Some lo" and hi: "y_max self = Some hi"
    and le: "lo \<le> hi"
    and st: "rescale self \<longrightarrow> yhat_mean self \<noteq> None \<and> yhat_sd self \<noteq> None
                \<and> y_mean self \<noteq> None \<and> y_sd self \<noteq> None"
    and raw: "orig_predict (estimator self) X = Inr raw"
  shows "\<exists>res. predict orig_predict self X = Inr res \<and> length res = length raw
            \<and> (\<forall>v\<in>set res. \<exists>p. v = Fin p \<and> lo \<le> p \<and> p \<le> hi)"
proof -
  obtain res0 where r0: "(if rescale self then rescale_predictions self (map Fin raw)
                 else Inr (map Fin raw)) = Inr res0" and l0: "length res0 = length raw"
  proof (cases "rescale self")
    case True
    with st rescale_predictions_Inr[of self "map Fin raw"] that show ?thesis by auto
  next
    case False
    with that show ?thesis by simp
  qed
  from constrain_predictions_in_range[OF lo hi le, of res0] obtain res where
    "constrain_predictions self res0 = Inr res" "length res = length res0"
    "\<forall>v\<in>set res. \<exists>p. v = Fin p \<and> lo \<le> p \<and> p \<le> hi" by blast
  with raw r0 l0 c show ?thesis
    by (simp add: predict_def)
qed


lemma rescaled_feature_regressor_eq:
  "rescaled sample_statistics feature_regressor = Inr (Patched rescaled_feature_regressor)"
  by (simp add: rescaled_def feature_regressor_def rescaled_feature_regressor_def)

text \<open>
  C2. For a regressor class decorated by \<open>rescaled\<close>, constructed with \<open>constrain=True\<close>
  and either value of \<open>rescale\<close>, and fitted on training labels \<open>y\<close>: the labels are
  not empty; whenever the original \<open>predict\<close> returns, the new one returns as many
  values; and every value the new \<open>predict\<close> returns is a finite number between
  \<open>min(y)\<close> and \<open>max(y)\<close>.
\<close>

theorem constrained_predictions_within_training_range:
  assumes "rescaled np cls = Inr (Patched dcls)"
      and "init_method dcls (True, rescale_flag, kwargs) = Inr self0"
      and "fit_method dcls self0 X (Some y) = Inr self"
  shows "y \<noteq> []
       \<and> (\<forall>orig_predict X' raw.
            predict_attr cls = Some orig_predict \<and> orig_predict (estimator self) X' = Inr raw \<longrightarrow>
            (\<exists>res. predict_method dcls self X' = Inr res \<and> length res = length raw
               \<and> (\<forall>v\<in>set res. \<exists>p. v = Fin p \<and> Min (set y) \<le> p \<and> p \<le> Max (set y))))
       \<and> (\<forall>X' res. predict_method dcls self X' = Inr res \<longrightarrow>
            (\<forall>v\<in>set res. \<exists>p. v = Fin p \<and> Min (set y) \<le> p \<and> p \<le> Max (set y)))"
proof -
  from rescaled_Patched[OF assms(1)] obtain orig_fit orig_predict where
    d: "fit_attr cls = Some orig_fit" "predict_attr cls = Some orig_predict"
      "init_method dcls = init (init_attr cls)"
      "fit_method dcls = fit np orig_fit orig_predict"
      "predict_method dcls = predict orig_predict"
    by blast
  from assms(2) have c0: "constrain self0" by (simp add: d init_Inr)
  from assms(3) have f: "fit np orig_fit orig_predict self0 X (Some y) = Inr self"
    by (simp add: d)
  from fit_constrain_Inr[OF f c0] have y: "y \<noteq> []" and c: "constrain self"
    and lo: "y_min self = Some (Min (set y))" and hi: "y_max self = Some (Max (set y))"
    by auto
  from fit_rescale_Inr[OF f] have st: "rescale self \<longrightarrow> yhat_mean self \<noteq> None \<and> yhat_sd self \<noteq> None
                \<and> y_mean self \<noteq> None \<and> y_sd self \<noteq> None" by simp
  from y have le: "Min (set y) \<le> Max (set y)" by simp
  have a: "\<exists>res. predict_method dcls self X' = Inr res \<and> length res = length raw
               \<and> (\<forall>v\<in>set res. \<exists>p. v = Fin p \<and> Min (set y) \<le> p \<and> p \<le> Max (set y))"
    if "orig_predict (estimator self) X' = Inr raw" for X' raw
    using predict_constrained[of self _ _ orig_predict X' raw, OF c lo hi le st that]
    by (simp add: d)
  have b: "\<forall>v\<in>set res. \<exists>p. v = Fin p \<and> Min (set y) \<le> p \<and> p \<le> Max (set y)"
    if p: "predict_method dcls self X' = Inr res" for X' res
  proof -
    from p obtain raw where "orig_predict (estimator self) X' = Inr raw"
      by (auto simp: d predict_def split: sum.splits)
    from a[OF this] p show ?thesis by auto
  qed
  from y a b d(2) show ?thesis by auto
qed

text \<open>
  The example of the specification: \<open>constrain=True, rescale=False\<close>, labels with
  minimum 0 and maximum 10, and a raw prediction of 15, which comes back as 10.
\<close>

theorem constrained_predictions_within_training_range_witness:
  "rescaled sample_statistics feature_regressor = Inr (Patched rescaled_feature_regressor)
   \<and> init_method rescaled_feature_regressor (True, False, ())
       = Inr \<lparr>constrain = True, rescale = False, y_min = None, y_max = None,
         yhat_mean = None, yhat_sd = None, y_mean = None, y_sd = None, estimator = ()\<rparr>
   \<and> fit_method rescaled_feature_regressor
        \<lparr>constrain = True, rescale = False, y_min = None, y_max = None,
         yhat_mean = None, yhat_sd = None, y_mean = None, y_sd = None, estimator = ()\<rparr>
        [2, 7] (Some [0, 10])
       = Inr \<lparr>constrain = True, rescale = False, y_min = Some 0, y_max = Some 10,
         yhat_mean = None, yhat_sd = None, y_mean = None, y_sd = None, estimator = ()\<rparr>
   \<and> predict_method rescaled_feature_regressor
        \<lparr>constrain = True, rescale = False, y_min = Some 0, y_max = Some 10,
         yhat_mean = None, yhat_sd = None, y_mean = None, y_sd = None, estimator = ()\<rparr>
        [15, 4, - 3]
       = Inr [Fin 10, Fin 4, Fin 0]
   \<and> (\<exists>p. Fin 10 = Fin p \<and> Min (set [0, 10]) \<le> p \<and> p \<le> Max (set [0, 10]))"
proof -
  have i: "init_method rescaled_feature_regressor (True, False, ())
       = Inr \<lparr>constrain = True, rescale = False, y_min = None, y_max = None,
         yhat_mean = None, yhat_sd = None, y_mean = None, y_sd = None, estimator = ()\<rparr>"
    by (simp add: rescaled_feature_regressor_def override_def init_def)
  have f: "fit_method rescaled_feature_regressor
        \<lparr>constrain = True, rescale = False, y_min = None, y_max = None,
         yhat_mean = None, yhat_sd = None, y_mean = None, y_sd = None, estimator = ()\<rparr>
        [2, 7] (Some [0, 10])
       = Inr \<lparr>constrain = True, rescale = False, y_min = Some 0, y_max = Some 10,
         yhat_mean = None, yhat_sd = None, y_mean = None, y_sd = None, estimator = ()\<rparr>"
    by (simp add: rescaled_feature_regressor_def override_def fit_def record_min_max_def)
  have p: "predict_method rescaled_feature_regressor
        \<lparr>constrain = True, rescale = False, y_min = Some 0, y_max = Some 10,
         yhat_mean = None, yhat_sd = None, y_mean = None, y_sd = None, estimator = ()\<rparr>
        [15, 4, - 3]
       = Inr [Fin 10, Fin 4, Fin 0]"
    by (simp add: rescaled_feature_regressor_def override_def predict_def
        constrain_predictions_def py_min2_def py_max2_def)
  note t = constrained_predictions_within_training_range[OF rescaled_feature_regressor_eq i f]
  from t[THEN conjunct2, THEN conjunct2, rule_format, OF p, of "Fin 10"]
  have "\<exists>p. Fin 10 = Fin p \<and> Min (set [0, 10]) \<le> p \<and> p \<le> Max (set [0, 10])"
    by simp
  with rescaled_feature_regressor_eq i f p show ?thesis by blast
qed

section \<open>rescaled: classifiers\<close>

text \<open>
  C6. A classifier class that has an attribute \<open>rescale\<close> of its own: the decorator
  returns the class as it is and raises nothing, while it raises the \<open>ValueError\<close> on
  the same class without the attribute.
\<close>

theorem rescaled_classifier_with_rescale_attribute_returns:
  "estimator_type_attr (feature_classifier\<lparr>rescale_attr := Some False\<rparr>) = Some ''classifier''
   \<and> rescaled sample_statistics (feature_classifier\<lparr>rescale_attr := Some False\<rparr>)
       = Inr (Unchanged (feature_classifier\<lparr>rescale_attr := Some False\<rparr>))
   \<and> rescaled sample_statistics feature_classifier
       = Inl (ValueError ''Classifiers cannot be rescaled. Only regressors can.'')"
  by (simp add: rescaled_def feature_classifier_def feature_regressor_def)

section \<open>rescaled: the division by the standard deviation\<close>









section \<open>The metric validator\<close>

lemma invalid_metrics_none:
  "\<forall>m\<in>set ms. \<exists>name. m = YStr name \<and> name \<in> SCORERS \<Longrightarrow> invalid_metrics SCORERS ms = Inr []"
  by (induction ms) auto

text \<open>
  C4. For every text of a configuration value that (after \<open>fix_json\<close>) parses to a list of
  metric names, all of them in the registry and none of them \<open>mean_squared_error\<close>, the
  validator returns that list: the same elements in the same order, as a list.
\<close>

theorem valid_metrics_returned_unchanged:
  assumes "safe_load (fix_json metrics) = Inr (YList ms)"
      and "\<forall>m\<in>set ms. \<exists>name. m = YStr name \<and> name \<in> SCORERS \<and> name \<noteq> ''mean_squared_error''"
  shows "parse_and_validate_metrics safe_load SCORERS metrics option_name = Inr ms"
proof -
  from assms(2) have d: "YStr ''mean_squared_error'' \<notin> set ms" by auto
  from assms(2) have "\<forall>m\<in>set ms. \<exists>name. m = YStr name \<and> name \<in> SCORERS" by blast
  then have "invalid_metrics SCORERS ms = Inr []" by (rule invalid_metrics_none)
  with assms(1) d show ?thesis
    by (simp add: parse_and_validate_metrics_def)
qed

text \<open>
  A value written with single quotes, with a metric named twice: the list comes back
  with its order and its repetition.
\<close>

theorem valid_metrics_returned_unchanged_witness:
  "sample_safe_load (fix_json ''['accuracy', 'f1', 'accuracy']'')
     = Inr (YList [YStr ''accuracy'', YStr ''f1'', YStr ''accuracy''])
   \<and> parse_and_validate_metrics sample_safe_load sample_SCORERS
        ''['accuracy', 'f1', 'accuracy']'' ''objectives''
     = Inr [YStr ''accuracy'', YStr ''f1'', YStr ''accuracy'']"
proof -
  have p: "sample_safe_load (fix_json ''['accuracy', 'f1', 'accuracy']'')
     = Inr (YList [YStr ''accuracy'', YStr ''f1'', YStr ''accuracy''])"
    by (simp add: sample_safe_load_def fix_json_def replace_def)
  have v: "\<forall>m\<in>set [YStr ''accuracy'', YStr ''f1'', YStr ''accuracy''].
             \<exists>name. m = YStr name \<and> name \<in> sample_SCORERS \<and> name \<noteq> ''mean_squared_error''"
    by (simp add: sample_SCORERS_def)
  from valid_metrics_returned_unchanged[of sample_safe_load "''['accuracy', 'f1', 'accuracy']''"
      "[YStr ''accuracy'', YStr ''f1'', YStr ''accuracy'']" sample_SCORERS "''objectives''", OF p v] p
  show ?thesis by simp
qed

section \<open>locate_file on an absolute path\<close>

text \<open>
  C5. The path \<open>/data/../train.jsonlines\<close> is absolute and exists; \<open>locate_file\<close> returns
  it as it was given, although its normal form is \<open>/train.jsonlines\<close>.
\<close>

theorem locate_file_absolute_path_not_normalized:
  "locate_file sample_exists ''/data/../train.jsonlines'' ''/cfg''
     = Inr ''/data/../train.jsonlines''
   \<and> normpath ''/data/../train.jsonlines'' = ''/train.jsonlines''"
  by (simp add: locate_file_def isabs_def sample_exists_def normpath_def norm_step_def)

section \<open>train_and_score and the learner's dictionary\<close>

lemma mapping_of_Some:
  "mapping_of w = Some m \<Longrightarrow>
     \<exists>a. label_dict (learner w) = Some a \<and> a < length (dicts w) \<and> m = dicts w ! a"
  by (auto simp: mapping_of_def split: option.splits if_splits)

lemma mapping_of_append:
  "learner w' = learner w \<Longrightarrow> dicts w' = dicts w @ ds \<Longrightarrow> mapping_of w \<noteq> None \<Longrightarrow>
     mapping_of w' = mapping_of w"
  by (auto simp: mapping_of_def nth_append split: option.splits if_splits)

lemma index_labels_frame:
  assumes "index_labels w train_examples test_examples = (r, w')"
  shows "learner w' = learner w \<and> other_state w' = other_state w
       \<and> (dicts w' = dicts w
          \<or> (\<exists>m. mapping_of w = Some m
                \<and> dicts w' = dicts w @ [m ++ unseen_label_dict (learner w) test_examples]))"
proof (cases "mapping_of w")
  case None
  with assms show ?thesis by (simp add: index_labels_def)
next
  case (Some m)
  from mapping_of_Some[OF Some] obtain a where a: "label_dict (learner w) = Some a"
    "a < length (dicts w)" "m = dicts w ! a" by blast
  define w2 where "w2 = w\<lparr>dicts := dicts w @ [m ++ unseen_label_dict (learner w) test_examples]\<rparr>"
  have u: "update (length (dicts w)) (unseen_label_dict (learner w) test_examples)
             (w\<lparr>dicts := dicts w @ [dicts w ! a]\<rparr>) = w2"
    by (simp add: update_def w2_def a(3))
  from assms Some a(1) u have "w' = w2"
    by (auto simp: index_labels_def copy_def split: sum.splits)
  with Some show ?thesis by (simp add: w2_def)
qed

lemma train_and_score_last_world:
  assumes "train_and_score train predict_of use_score_func w train_examples test_examples metric = (r, w')"
      and "run_learner train predict_of w train_examples test_examples = (r3, w3)"
  shows "w' = w3 \<or> (\<exists>r4. index_labels w3 train_examples test_examples = (r4, w'))"
  using assms
  by (auto simp: train_and_score_def split: sum.splits prod.splits if_splits)

lemma run_learner_mapping:
  assumes "run_learner train predict_of w train_examples test_examples = (r3, w3)"
      and "\<forall>ex v. mapping_of (snd (train ex v)) = mapping_of v"
      and "\<forall>ex v. mapping_of (snd (predict_of ex v)) = mapping_of v"
  shows "mapping_of w3 = mapping_of w"
proof -
  obtain r1 w1 where t: "train train_examples w = (r1, w1)" by (cases "train train_examples w")
  obtain r2 w2 where p1: "predict_of train_examples w1 = (r2, w2)"
    by (cases "predict_of train_examples w1")
  obtain r3' w3' where p2: "predict_of test_examples w2 = (r3', w3')"
    by (cases "predict_of test_examples w2")
  from assms(2) t have m1: "mapping_of w1 = mapping_of w" by (metis snd_conv)
  from assms(3) p1 have m2: "mapping_of w2 = mapping_of w1" by (metis snd_conv)
  from assms(3) p2 have m3: "mapping_of w3' = mapping_of w2" by (metis snd_conv)
  from assms(1) t p1 p2 have "w3 = w1 \<or> w3 = w2 \<or> w3 = w3'"
    by (auto simp: run_learner_def split: sum.splits)
  with m1 m2 m3 show ?thesis by auto
qed

text \<open>
  C7, as stated, fails on a learner whose \<open>train\<close> builds its dictionary: the function
  calls \<open>train\<close> first, and the learner that had no mapping before the call has one
  after it.
\<close>

theorem train_and_score_after_building_train:
  "mapping_of untrained_world = None
   \<and> fst (train_and_score building_train sample_predict sample_score untrained_world
            \<lparr>labels = [10, 20, 10], features = ()\<rparr> \<lparr>labels = [20, 30, 30, 5], features = ()\<rparr>
            ''accuracy'') = Inr (3, 4)
   \<and> mapping_of (snd (train_and_score building_train sample_predict sample_score untrained_world
            \<lparr>labels = [10, 20, 10], features = ()\<rparr> \<lparr>labels = [20, 30, 30, 5], features = ()\<rparr>
            ''accuracy'')) = Some [20 \<mapsto> 1, 10 \<mapsto> 0]"
  by (simp add: train_and_score_def run_learner_def building_train_def sample_predict_def
      sample_score_def untrained_world_def index_labels_def mapping_of_def copy_def update_def
      unseen_label_dict_def unseen_test_label_list_def upt_rec eval_nat_numeral)

text \<open>
  C7, amended. For every learner and every pair of example collections,
  \<open>train_and_score\<close> does not itself change the learner's mapping: after the call the
  learner, its reference to its dictionary and the dictionary it refers to are as the
  learner's own \<open>train\<close> and \<open>predict\<close> left them, and the store has at most gained one
  object, the copy with the unseen test labels merged in.  So when \<open>train\<close> and
  \<open>predict\<close> do not change the learner's mapping, it is after the call exactly what it
  was before.
\<close>

theorem train_and_score_keeps_label_dict:
  assumes "train_and_score train predict_of use_score_func w train_examples test_examples metric
             = (r, w')"
      and "run_learner train predict_of w train_examples test_examples = (r3, w3)"
  shows "learner w' = learner w3 \<and> other_state w' = other_state w3
       \<and> mapping_of w' = mapping_of w3
       \<and> (dicts w' = dicts w3
          \<or> (\<exists>m. mapping_of w3 = Some m
                \<and> dicts w' = dicts w3 @ [m ++ unseen_label_dict (learner w3) test_examples]))
       \<and> ((\<forall>ex v. mapping_of (snd (train ex v)) = mapping_of v)
            \<and> (\<forall>ex v. mapping_of (snd (predict_of ex v)) = mapping_of v)
          \<longrightarrow> mapping_of w' = mapping_of w)"
proof -
  have fr: "learner w' = learner w3 \<and> other_state w' = other_state w3
       \<and> (dicts w' = dicts w3
          \<or> (\<exists>m. mapping_of w3 = Some m
                \<and> dicts w' = dicts w3 @ [m ++ unseen_label_dict (learner w3) test_examples]))"
    using train_and_score_last_world[OF assms] index_labels_frame by blast
  have m: "mapping_of w' = mapping_of w3"
  proof (cases "dicts w' = dicts w3")
    case True
    moreover from fr have "learner w' = learner w3" by simp
    ultimately show ?thesis unfolding mapping_of_def by (simp split: option.splits)
  next
    case False
    with fr obtain m where "mapping_of w3 = Some m"
      "dicts w' = dicts w3 @ [m ++ unseen_label_dict (learner w3) test_examples]" by blast
    with fr mapping_of_append[of w' w3] show ?thesis by simp
  qed
  from m run_learner_mapping[OF assms(2)]
  have "(\<forall>ex v. mapping_of (snd (train ex v)) = mapping_of v)
            \<and> (\<forall>ex v. mapping_of (snd (predict_of ex v)) = mapping_of v)
          \<longrightarrow> mapping_of w' = mapping_of w" by simp
  with fr m show ?thesis by blast
qed

text \<open>
  A classifier that knows the labels 10 and 20, tested on 20, 30, 30 and 5: the copy
  gets 5 and 30 with the indices 2 and 3, the learner's dictionary stays as it was.
\<close>

theorem train_and_score_keeps_label_dict_witness:
  "train_and_score sample_train sample_predict sample_score sample_world
       \<lparr>labels = [10, 20, 10], features = ()\<rparr> \<lparr>labels = [20, 30, 30, 5], features = ()\<rparr>
       ''accuracy''
     = (Inr (3, 4),
        sample_world\<lparr>other_state := 1,
                     dicts := [[10 \<mapsto> 0, 20 \<mapsto> 1], [10 \<mapsto> 0, 20 \<mapsto> 1, 30 \<mapsto> 3, 5 \<mapsto> 2]]\<rparr>)
   \<and> run_learner sample_train sample_predict sample_world
       \<lparr>labels = [10, 20, 10], features = ()\<rparr> \<lparr>labels = [20, 30, 30, 5], features = ()\<rparr>
     = (Inr ([0, 0, 0], [0, 0, 0, 0]), sample_world\<lparr>other_state := 1\<rparr>)
   \<and> (\<forall>ex v. mapping_of (snd (sample_train ex v)) = mapping_of v)
   \<and> (\<forall>ex v. mapping_of (snd (sample_predict ex v)) = mapping_of v)
   \<and> mapping_of (sample_world\<lparr>other_state := 1,
                     dicts := [[10 \<mapsto> 0, 20 \<mapsto> 1], [10 \<mapsto> 0, 20 \<mapsto> 1, 30 \<mapsto> 3, 5 \<mapsto> 2]]\<rparr>)
       = mapping_of sample_world
   \<and> mapping_of sample_world = Some [10 \<mapsto> 0, 20 \<mapsto> 1]"
proof -
  have rl: "run_learner sample_train sample_predict sample_world
       \<lparr>labels = [10, 20, 10], features = ()\<rparr> \<lparr>labels = [20, 30, 30, 5], features = ()\<rparr>
     = (Inr ([0, 0, 0], [0, 0, 0, 0]), sample_world\<lparr>other_state := 1\<rparr>)"
    by (simp add: run_learner_def sample_train_def sample_predict_def sample_world_def)
  have ts: "train_and_score sample_train sample_predict sample_score sample_world
       \<lparr>labels = [10, 20, 10], features = ()\<rparr> \<lparr>labels = [20, 30, 30, 5], features = ()\<rparr>
       ''accuracy''
     = (Inr (3, 4),
        sample_world\<lparr>other_state := 1,
                     dicts := [[10 \<mapsto> 0, 20 \<mapsto> 1], [10 \<mapsto> 0, 20 \<mapsto> 1, 30 \<mapsto> 3, 5 \<mapsto> 2]]\<rparr>)"
    by (simp add: train_and_score_def run_learner_def sample_train_def sample_predict_def
        sample_score_def sample_world_def index_labels_def mapping_of_def copy_def update_def
        unseen_label_dict_def unseen_test_label_list_def upt_rec eval_nat_numeral)
  have ft: "\<forall>ex v. mapping_of (snd (sample_train ex v)) = mapping_of v"
    by (simp add: sample_train_def mapping_of_def split: option.splits)
  have fp: "\<forall>ex v. mapping_of (snd (sample_predict ex v)) = mapping_of v"
    by (simp add: sample_predict_def)
  have m0: "mapping_of sample_world = Some [10 \<mapsto> 0, 20 \<mapsto> 1]"
    by (simp add: mapping_of_def sample_world_def)
  from train_and_score_keeps_label_dict[OF ts rl] ft fp
  have "mapping_of (sample_world\<lparr>other_state := 1,
                     dicts := [[10 \<mapsto> 0, 20 \<mapsto> 1], [10 \<mapsto> 0, 20 \<mapsto> 1, 30 \<mapsto> 3, 5 \<mapsto> 2]]\<rparr>)
       = mapping_of sample_world" by blast
  with rl ts ft fp m0 show ?thesis by blast
qed

end
